theory Spec2Isabelle
  imports Main "HOL-Library.Char_ord" "HOL-Library.List_Lexorder" "HOL-Library.Sublist"
    "HOL-Library.AList"
begin

section \<open>Strings and patterns\<close>

text \<open>
  Go strings are byte sequences; they are modelled as \<open>string\<close> (a \<open>char list\<close>), one
  \<open>char\<close> per byte. The cut sets and character classes of the program are ASCII, so
  trimming by byte and trimming by code point agree.
\<close>

text \<open>\<^verbatim>\<open>strings.TrimLeft\<close>, \<^verbatim>\<open>strings.TrimRight\<close> and \<^verbatim>\<open>strings.Trim\<close>: drop every leading
  (trailing) character that occurs in the cut set.\<close>

definition TrimLeft :: "string \<Rightarrow> string \<Rightarrow> string" where
  "TrimLeft s cutset = dropWhile (\<lambda>c. c \<in> set cutset) s"

definition TrimRight :: "string \<Rightarrow> string \<Rightarrow> string" where
  "TrimRight s cutset = rev (dropWhile (\<lambda>c. c \<in> set cutset) (rev s))"

definition Trim :: "string \<Rightarrow> string \<Rightarrow> string" where
  "Trim s cutset = TrimRight (TrimLeft s cutset) cutset"

text \<open>\<^verbatim>\<open>strings.HasSuffix\<close>.\<close>

definition HasSuffix :: "string \<Rightarrow> string \<Rightarrow> bool" where
  "HasSuffix s suf = (length suf \<le> length s \<and> drop (length s - length suf) s = suf)"

text \<open>
  The two regular expressions of the program are sequences of quantified character
  classes. An item is a class with a minimal and an optional maximal repetition count;
  all quantifiers are greedy, and the matcher backtracks in the order of Go's
  leftmost-first semantics: the longest repetition first, then shorter ones.
\<close>

datatype cls = Is char | IsNot char

fun inCls :: "cls \<Rightarrow> char \<Rightarrow> bool" where
  "inCls (Is a) c = (c = a)"
| "inCls (IsNot a) c = (c \<noteq> a)"

record item =
  klass :: cls
  lo :: nat
  hi :: "nat option"

definition one :: "cls \<Rightarrow> item" where
  "one k = \<lparr>klass = k, lo = 1, hi = Some 1\<rparr>"

definition plus :: "cls \<Rightarrow> item" where
  "plus k = \<lparr>klass = k, lo = 1, hi = None\<rparr>"

definition between :: "cls \<Rightarrow> nat \<Rightarrow> nat \<Rightarrow> item" where
  "between k m n = \<lparr>klass = k, lo = m, hi = Some n\<rparr>"

definition maxrun :: "item \<Rightarrow> string \<Rightarrow> nat" where
  "maxrun it s =
     (let n = length (takeWhile (inCls (klass it)) s)
      in case hi it of None \<Rightarrow> n | Some h \<Rightarrow> min h n)"

fun tryLen :: "(string \<Rightarrow> nat option) \<Rightarrow> nat \<Rightarrow> nat \<Rightarrow> string \<Rightarrow> nat option" where
  "tryLen cont m 0 s =
     (if 0 < m then None else cont s)"
| "tryLen cont m (Suc j) s =
     (if Suc j < m then None
      else case cont (drop (Suc j) s) of
             Some r \<Rightarrow> Some (Suc j + r)
           | None \<Rightarrow> tryLen cont m j s)"

text \<open>\<open>matchSeq p s\<close> is the length of the preferred match of \<open>p\<close> at the start of \<open>s\<close>.\<close>

primrec matchSeq :: "item list \<Rightarrow> string \<Rightarrow> nat option" where
  "matchSeq [] = (\<lambda>s. Some 0)"
| "matchSeq (it # its) = (\<lambda>s. tryLen (matchSeq its) (lo it) (maxrun it s) s)"

text \<open>\<^verbatim>\<open>getPackagePattern\<close>: the pattern \<^verbatim>\<open>^([^/]+\.[^.]{1,6}/[^/]+/[^/]+)\<close>, anchored at the
  start of the input.\<close>

definition getPackagePattern :: "item list" where
  "getPackagePattern =
     [plus (IsNot CHR ''/''), one (Is CHR ''.''), between (IsNot CHR ''.'') 1 6,
      one (Is CHR ''/''), plus (IsNot CHR ''/''), one (Is CHR ''/''), plus (IsNot CHR ''/'')]"

text \<open>\<^verbatim>\<open>pattern.MatchString\<close> and \<^verbatim>\<open>pattern.FindString\<close> for an anchored pattern; \<^verbatim>\<open>FindString\<close>
  returns the empty string when there is no match.\<close>

definition MatchString :: "item list \<Rightarrow> string \<Rightarrow> bool" where
  "MatchString p s = (matchSeq p s \<noteq> None)"

definition FindString :: "item list \<Rightarrow> string \<Rightarrow> string" where
  "FindString p s = (case matchSeq p s of None \<Rightarrow> [] | Some n \<Rightarrow> take n s)"

section \<open>Package path matcher\<close>

text \<open>
  \<^verbatim>\<open>getImports\<close>. The import map (file name to the import specs of that file) is an
  association list; an import spec is represented by its \<^verbatim>\<open>Path.Value\<close>, the literal as
  written in the source file, quotes included. The local map \<^verbatim>\<open>imports\<close> is used as a
  set of keys: it is the list of keys in insertion order, and the final \<^verbatim>\<open>range\<close> over it
  (whose order Go leaves unspecified) is taken in that order.
\<close>

definition addImport :: "string \<Rightarrow> string list \<Rightarrow> string list" where
  "addImport v imports =
     (let val = Trim v ''\"'' in
      if MatchString getPackagePattern val
      then (let val' = FindString getPackagePattern val
            in if val' \<in> set imports then imports else imports @ [val'])
      else imports)"

definition getImports :: "(string \<times> string list) list \<Rightarrow> string \<Rightarrow> string list" where
  "getImports importMap currentPkg =
     (let imports = fold (\<lambda>(fname, arr) acc. fold addImport arr acc) importMap []
      in filter (\<lambda>key. key \<noteq> currentPkg) (map (\<lambda>key. Trim key ''\"'') imports))"


text \<open>The keys collected by the first loop of \<^verbatim>\<open>getImports\<close>.\<close>

definition importKeys :: "(string \<times> string list) list \<Rightarrow> string list" where
  "importKeys importMap = fold (\<lambda>(fname, arr) acc. fold addImport arr acc) importMap []"

text \<open>The identifiers that a set of import literals gives rise to: the preferred match
  of the pattern in every literal that matches, after the quotes are trimmed.\<close>

definition matched :: "string set \<Rightarrow> string set" where
  "matched V = (\<lambda>v. FindString getPackagePattern (Trim v ''\"'')) `
                 {v \<in> V. MatchString getPackagePattern (Trim v ''\"'')}"

text \<open>All import literals of an import map, whatever file they come from.\<close>

definition allImports :: "(string \<times> string list) list \<Rightarrow> string set" where
  "allImports importMap = (\<Union>(fname, arr) \<in> set importMap. set arr)"


section \<open>Paths, failures and the source scanner\<close>

text \<open>The constants of the program.\<close>

definition dependencyFilename :: string where
  "dependencyFilename = ''bpm.json''"

definition vendorFolderName :: string where
  "vendorFolderName = ''vendor''"

text \<open>
  \<^verbatim>\<open>filepath.Join\<close> of a directory and one more element. The directory is taken to be a
  clean path, so that joining puts one separator between the two; an empty directory
  gives the element itself.
\<close>

definition Join :: "string \<Rightarrow> string \<Rightarrow> string" where
  "Join dir name =
     (if dir = [] then name
      else if last dir = CHR ''/'' then dir @ name
      else dir @ ''/'' @ name)"

text \<open>
  Every \<^verbatim>\<open>log.Panic\<close> and \<^verbatim>\<open>log.Fatal\<close> of the program is a value of this type; the
  constructor says where the run was given up.
\<close>

datatype error =
    ReadDirFailed string
  | ReadFileFailed string
  | ParseFailed string
  | CmdFailed "string list"
  | DecodeFailed
  | NilEntry string

text \<open>
  A directory listing as \<^verbatim>\<open>ioutil.ReadDir\<close> and \<^verbatim>\<open>os.FileInfo\<close> show it to the program: an
  entry is a directory (\<^verbatim>\<open>IsDir()\<close>) or it is not. A directory carries its own listing,
  \<open>None\<close> when it cannot be read. A file carries what \<^verbatim>\<open>parser.ParseFile\<close> with
  \<^verbatim>\<open>ImportsOnly\<close> finds in it: the import literals, or \<open>None\<close> when it does not parse.
\<close>

datatype node =
    File string "string list option"
  | Dir string "node list option"

text \<open>\<^verbatim>\<open>getAllSourceFiles\<close>; \<open>scanEntries\<close> is its loop over the listing, with the
  result accumulated so far.\<close>

fun getAllSourceFiles :: "string \<Rightarrow> node list option \<Rightarrow> error + string list"
  and scanEntries :: "string \<Rightarrow> node list \<Rightarrow> string list \<Rightarrow> error + string list" where
  "getAllSourceFiles dir None = Inl (ReadDirFailed dir)"
| "getAllSourceFiles dir (Some files) = scanEntries dir files []"
| "scanEntries dir [] result = Inr result"
| "scanEntries dir (File name c # fs) result =
     (let fullName = Join dir name
      in if HasSuffix fullName ''.go''
         then scanEntries dir fs (result @ [fullName])
         else scanEntries dir fs result)"
| "scanEntries dir (Dir name l # fs) result =
     (let fullName = Join dir name
      in if name = vendorFolderName
         then scanEntries dir fs result
         else (case getAllSourceFiles fullName l of
                 Inl e \<Rightarrow> Inl e
               | Inr sources \<Rightarrow> scanEntries dir fs (result @ sources)))"

text \<open>
  The scanner's result in the words of its contract. \<open>walk\<close> lists every entry of a tree
  that is not a directory, with the names of the directories above it (outermost
  first); \<open>pathOf\<close> is the path of such an entry below the root directory.
\<close>

fun walk :: "node list \<Rightarrow> (string list \<times> string) list" where
  "walk [] = []"
| "walk (File name c # fs) = ([], name) # walk fs"
| "walk (Dir name None # fs) = walk fs"
| "walk (Dir name (Some l) # fs) = map (\<lambda>(ds, f). (name # ds, f)) (walk l) @ walk fs"

definition pathOf :: "string \<Rightarrow> string list \<times> string \<Rightarrow> string" where
  "pathOf dir e = Join (foldl Join dir (fst e)) (snd e)"

definition sourceFiles :: "string \<Rightarrow> node list \<Rightarrow> string set" where
  "sourceFiles dir files =
     pathOf dir ` {e \<in> set (walk files).
                    vendorFolderName \<notin> set (fst e) \<and> HasSuffix (snd e) ''.go''}"

text \<open>Every directory that the scanner enters can be listed: directories named
  \<^verbatim>\<open>vendor\<close> are not entered.\<close>

fun readable :: "node list \<Rightarrow> bool" where
  "readable [] = True"
| "readable (File name c # fs) = readable fs"
| "readable (Dir name l # fs) =
     ((name = vendorFolderName \<or> (case l of None \<Rightarrow> False | Some sub \<Rightarrow> readable sub))
      \<and> readable fs)"

section \<open>The dependency graph and the lockfile codec\<close>

text \<open>
  \<^verbatim>\<open>bpmEntry\<close> and \<^verbatim>\<open>bpmPackage\<close>. A Go map from package identifier to entry is an
  association list with one pair per key; the order of the pairs carries no meaning.
  A nil map and an empty map behave alike in every function of the program and are
  both the empty list.
\<close>

datatype bpmEntry =
  BpmEntry (URL: string) (Branch: string) (Commit: string)
           (Dependencies: "(string \<times> bpmEntry) list")

record bpmPackage =
  Package :: string
  PackageDependencies :: "(string \<times> bpmEntry) list"

text \<open>
  The lockfile is handled through \<^verbatim>\<open>encoding/json\<close>. The model works on JSON documents:
  what the encoder prints and what the decoder has parsed. The printing and parsing of
  the bytes belong to the library and are not modelled.
\<close>

datatype json =
    JNull
  | JBool bool
  | JNumber int
  | JString string
  | JArray "json list"
  | JObject "(string \<times> json) list"

text \<open>A string field tagged \<^verbatim>\<open>omitempty\<close> is left out when it is empty.\<close>

definition omitempty :: "string \<Rightarrow> string \<Rightarrow> (string \<times> json) list" where
  "omitempty name v = (if v = [] then [] else [(name, JString v)])"

text \<open>
  \<^verbatim>\<open>jsonEncodeIndented\<close>: the fields in the order of the struct, under the names of
  the struct tags; the encoder writes the keys of a map in sorted order.
\<close>

fun encodeEntry :: "bpmEntry \<Rightarrow> json" where
  "encodeEntry (BpmEntry url branch commit deps) =
     JObject (omitempty ''url'' url @ omitempty ''branch'' branch @ omitempty ''commit'' commit @
              [(''dependencies'',
                JObject (sort_key fst (map (\<lambda>(k, e). (k, encodeEntry e)) deps)))])"

definition encodeDeps :: "(string \<times> bpmEntry) list \<Rightarrow> json" where
  "encodeDeps deps = JObject (sort_key fst (map (\<lambda>(k, e). (k, encodeEntry e)) deps))"

definition jsonEncodeIndented :: "bpmPackage \<Rightarrow> json" where
  "jsonEncodeIndented data =
     JObject [(''package'', JString (Package data)),
              (''dependencies'', encodeDeps (PackageDependencies data))]"

text \<open>
  \<^verbatim>\<open>json.Unmarshal\<close> into the two structs. The decoder goes through the members of an
  object in the order of the document; a member whose key is the tag of a field is
  decoded into that field (a later member with the same key overwrites an earlier one),
  any other member is skipped. \<^verbatim>\<open>null\<close> leaves a string as it is and gives the empty map;
  a value of the wrong kind is an error. An entry that is \<^verbatim>\<open>null\<close> would become a nil
  pointer, on which the reconciler panics at its first use: the model reports it when
  decoding. Keys are compared exactly.
\<close>

fun decodeString :: "json \<Rightarrow> string \<Rightarrow> string option" where
  "decodeString (JString s) old = Some s"
| "decodeString JNull old = Some old"
| "decodeString j old = None"

fun decodeEntry :: "json \<Rightarrow> bpmEntry option"
  and decodeEntryMembers :: "(string \<times> json) list \<Rightarrow> bpmEntry \<Rightarrow> bpmEntry option"
  and decodeDeps :: "json \<Rightarrow> (string \<times> bpmEntry) list \<Rightarrow> (string \<times> bpmEntry) list option"
  and decodeDepsMembers ::
    "(string \<times> json) list \<Rightarrow> (string \<times> bpmEntry) list \<Rightarrow> (string \<times> bpmEntry) list option"
  where
  "decodeEntry (JObject ms) = decodeEntryMembers ms (BpmEntry [] [] [] [])"
| "decodeEntry JNull = None"
| "decodeEntry (JBool b) = None"
| "decodeEntry (JNumber n) = None"
| "decodeEntry (JString s) = None"
| "decodeEntry (JArray js) = None"
| "decodeEntryMembers [] e = Some e"
| "decodeEntryMembers ((k, j) # ms) e =
     (if k = ''url'' then
        (case decodeString j (URL e) of
           None \<Rightarrow> None
         | Some s \<Rightarrow> decodeEntryMembers ms (BpmEntry s (Branch e) (Commit e) (Dependencies e)))
      else if k = ''branch'' then
        (case decodeString j (Branch e) of
           None \<Rightarrow> None
         | Some s \<Rightarrow> decodeEntryMembers ms (BpmEntry (URL e) s (Commit e) (Dependencies e)))
      else if k = ''commit'' then
        (case decodeString j (Commit e) of
           None \<Rightarrow> None
         | Some s \<Rightarrow> decodeEntryMembers ms (BpmEntry (URL e) (Branch e) s (Dependencies e)))
      else if k = ''dependencies'' then
        (case decodeDeps j (Dependencies e) of
           None \<Rightarrow> None
         | Some ds \<Rightarrow> decodeEntryMembers ms (BpmEntry (URL e) (Branch e) (Commit e) ds))
      else decodeEntryMembers ms e)"
| "decodeDeps (JObject ms) old = decodeDepsMembers ms old"
| "decodeDeps JNull old = Some []"
| "decodeDeps (JBool b) old = None"
| "decodeDeps (JNumber n) old = None"
| "decodeDeps (JString s) old = None"
| "decodeDeps (JArray js) old = None"
| "decodeDepsMembers [] acc = Some acc"
| "decodeDepsMembers ((k, j) # ms) acc =
     (case decodeEntry j of
        None \<Rightarrow> None
      | Some e \<Rightarrow> decodeDepsMembers ms (AList.update k e acc))"

fun decodePackageMembers :: "(string \<times> json) list \<Rightarrow> bpmPackage \<Rightarrow> bpmPackage option" where
  "decodePackageMembers [] p = Some p"
| "decodePackageMembers ((k, j) # ms) p =
     (if k = ''package'' then
        (case decodeString j (Package p) of
           None \<Rightarrow> None
         | Some s \<Rightarrow> decodePackageMembers ms (p\<lparr>Package := s\<rparr>))
      else if k = ''dependencies'' then
        (case decodeDeps j (PackageDependencies p) of
           None \<Rightarrow> None
         | Some ds \<Rightarrow> decodePackageMembers ms (p\<lparr>PackageDependencies := ds\<rparr>))
      else decodePackageMembers ms p)"

text \<open>The decoding step of \<^verbatim>\<open>readDataFile\<close>, with its panic on an error.\<close>

fun jsonUnmarshal :: "json \<Rightarrow> error + bpmPackage" where
  "jsonUnmarshal (JObject ms) =
     (case decodePackageMembers ms \<lparr>Package = [], PackageDependencies = []\<rparr> of
        None \<Rightarrow> Inl DecodeFailed
      | Some p \<Rightarrow> Inr p)"
| "jsonUnmarshal JNull = Inr \<lparr>Package = [], PackageDependencies = []\<rparr>"
| "jsonUnmarshal j = Inl DecodeFailed"









section \<open>The world outside the program\<close>

text \<open>
  The program works on the file system and through the \<^verbatim>\<open>git\<close> executable. Both are
  part of the state that the model passes along.

  A repository is described by what the git commands of the program read and change:
  the local branches with their tip commits, the branch that is checked out (a name
  that is no local branch when the head is detached), the commit of \<^verbatim>\<open>HEAD\<close> (none
  before the first commit), the commits in the object store, the commit whose file
  contents the working tree shows, and the URL of the remote \<^verbatim>\<open>origin\<close>.
\<close>

record repo =
  branches :: "(string \<times> string) list"
  current :: string
  head :: "string option"
  commits :: "string list"
  checkedOut :: string
  origin :: "string option"

text \<open>
  The world: the working directory of the process; the regular files that matter (the
  lockfiles), each with the JSON document it holds, or \<open>None\<close> when its bytes are not
  JSON; the source tree found at a directory (what lies below its \<^verbatim>\<open>vendor\<close> directory
  is kept under the paths of the vendored packages); the repository at a directory, that
  is, the directory has a \<^verbatim>\<open>.git\<close> entry; what a clone of a URL delivers; the lines printed
  on standard output; and the commands that have run to completion, each with the
  directory it ran in.
\<close>

record world =
  cwd :: string
  lockfiles :: "string \<Rightarrow> json option option"
  trees :: "(string \<times> node list) list"
  repos :: "string \<Rightarrow> repo option"
  remotes :: "string \<Rightarrow> (repo \<times> node list) option"
  stdout :: "string list"
  ran :: "(string option \<times> string list) list"

text \<open>What \<^verbatim>\<open>git branch\<close> prints: one line per local branch, the current one marked.\<close>

definition branchListing :: "repo \<Rightarrow> string" where
  "branchListing r =
     concat (map (\<lambda>b. (if b = current r then ''* '' else ''  '') @ b @ ''\<newline>'')
                 (map fst (branches r)))"

text \<open>
  The git executable, for the six ways the program calls it. The result is the output
  and the new world, or \<open>None\<close> when git exits with a status other than zero. A command
  that fails changes nothing.
  \<^item> \<^verbatim>\<open>clone url dir\<close> needs the remote to exist and the target not to be populated.
  \<^item> \<^verbatim>\<open>branch\<close>, \<^verbatim>\<open>rev-parse HEAD\<close> and \<^verbatim>\<open>remote get-url origin\<close> need a repository in the
    directory; the last two also a commit at the head and a remote of that name.
  \<^item> \<^verbatim>\<open>checkout name\<close> switches to a local branch: the head moves to its tip.
  \<^item> \<^verbatim>\<open>checkout commit .\<close> takes the contents of all paths from the commit; the head
    and the current branch stay where they are.
\<close>

definition gitClone :: "string \<Rightarrow> string \<Rightarrow> world \<Rightarrow> (string \<times> world) option" where
  "gitClone url dir w =
     (case remotes w url of
        None \<Rightarrow> None
      | Some (r, t) \<Rightarrow>
          if repos w dir \<noteq> None \<or> map_of (trees w) dir \<noteq> None then None
          else Some ([], w\<lparr>repos := (repos w)(dir \<mapsto> r\<lparr>origin := Some url\<rparr>),
                           trees := (dir, t) # trees w\<rparr>))"

definition gitInRepo :: "string list \<Rightarrow> repo \<Rightarrow> (string \<times> repo) option" where
  "gitInRepo args r =
     (if args = [''branch''] then Some (branchListing r, r)
      else if args = [''rev-parse'', ''HEAD''] then
        (case head r of None \<Rightarrow> None | Some h \<Rightarrow> Some (h @ ''\<newline>'', r))
      else if args = [''remote'', ''get-url'', ''origin''] then
        (case origin r of None \<Rightarrow> None | Some u \<Rightarrow> Some (u @ ''\<newline>'', r))
      else if length args = 2 \<and> hd args = ''checkout'' then
        (case map_of (branches r) (args ! 1) of
           None \<Rightarrow> None
         | Some tip \<Rightarrow> Some ([], r\<lparr>current := args ! 1, head := Some tip, checkedOut := tip\<rparr>))
      else if length args = 3 \<and> hd args = ''checkout'' \<and> args ! 2 = ''.'' then
        (if args ! 1 \<in> set (commits r) then Some ([], r\<lparr>checkedOut := args ! 1\<rparr>) else None)
      else None)"

definition git :: "string option \<Rightarrow> string list \<Rightarrow> world \<Rightarrow> (string \<times> world) option" where
  "git dir args w =
     (if length args = 3 \<and> hd args = ''clone'' then gitClone (args ! 1) (args ! 2) w
      else (case dir of
              None \<Rightarrow> None
            | Some d \<Rightarrow>
               (case repos w d of
                  None \<Rightarrow> None
                | Some r \<Rightarrow>
                   (case gitInRepo args r of
                      None \<Rightarrow> None
                    | Some (out, r') \<Rightarrow> Some (out, w\<lparr>repos := (repos w)(d \<mapsto> r')\<rparr>)))))"

section \<open>Version control adapter\<close>

text \<open>
  \<^verbatim>\<open>runCmd\<close>: run the command in the directory and panic when it fails. Without
  \<^verbatim>\<open>getOutput\<close> the output goes to the terminal and the result is empty. The only
  command the program runs is \<^verbatim>\<open>git\<close>.
\<close>

definition runCmd ::
  "string option \<Rightarrow> bool \<Rightarrow> string \<Rightarrow> string list \<Rightarrow> world \<Rightarrow> error + (string \<times> world)" where
  "runCmd dir getOutput command args w =
     (case (if command = ''git'' then git dir args w else None) of
        None \<Rightarrow> Inl (CmdFailed (command # args))
      | Some (out, w') \<Rightarrow>
          Inr (if getOutput then out else [],
               w'\<lparr>ran := ran w' @ [(dir, command # args)]\<rparr>))"

definition checkoutBranch :: "string \<Rightarrow> string \<Rightarrow> world \<Rightarrow> error + world" where
  "checkoutBranch pkgDir branch w =
     (case runCmd (Some pkgDir) False ''git'' [''checkout'', branch] w of
        Inl e \<Rightarrow> Inl e | Inr (out, w') \<Rightarrow> Inr w')"

definition checkoutCommit :: "string \<Rightarrow> string \<Rightarrow> world \<Rightarrow> error + world" where
  "checkoutCommit pkgDir commit w =
     (case runCmd (Some pkgDir) False ''git'' [''checkout'', commit, ''.''] w of
        Inl e \<Rightarrow> Inl e | Inr (out, w') \<Rightarrow> Inr w')"

definition cloneRepo :: "string \<Rightarrow> string \<Rightarrow> world \<Rightarrow> error + world" where
  "cloneRepo url dir w =
     (case runCmd None False ''git'' [''clone'', url, dir] w of
        Inl e \<Rightarrow> Inl e | Inr (out, w') \<Rightarrow> Inr w')"

text \<open>\<^verbatim>\<open>Find\<close> of an unanchored pattern: the match at the leftmost position that has one,
  empty when there is none.\<close>

fun findFirst :: "item list \<Rightarrow> string \<Rightarrow> string" where
  "findFirst p [] = (case matchSeq p [] of None \<Rightarrow> [] | Some n \<Rightarrow> [])"
| "findFirst p (c # s) =
     (case matchSeq p (c # s) of None \<Rightarrow> findFirst p s | Some n \<Rightarrow> take n (c # s))"

text \<open>The pattern \<^verbatim>\<open>\* ([^\n]+)\n\<close> of \<^verbatim>\<open>getCurrentBranch\<close>.\<close>

definition branchPattern :: "item list" where
  "branchPattern =
     [one (Is CHR ''*''), one (Is CHR '' ''), plus (IsNot CHR ''\<newline>''), one (Is CHR ''\<newline>'')]"

definition parseBranch :: "string \<Rightarrow> string" where
  "parseBranch out = TrimRight (TrimLeft (findFirst branchPattern out) ''* '') ''\<newline> ''"

definition getCurrentBranch :: "string \<Rightarrow> world \<Rightarrow> error + (string \<times> world)" where
  "getCurrentBranch dir w =
     (case runCmd (Some dir) True ''git'' [''branch''] w of
        Inl e \<Rightarrow> Inl e
      | Inr (out, w') \<Rightarrow> Inr (parseBranch out, w'))"

definition getCurrentCommitHash :: "string \<Rightarrow> world \<Rightarrow> error + (string \<times> world)" where
  "getCurrentCommitHash dir w =
     (case runCmd (Some dir) True ''git'' [''rev-parse'', ''HEAD''] w of
        Inl e \<Rightarrow> Inl e
      | Inr (out, w') \<Rightarrow> Inr (TrimRight out ''\<newline> '', w'))"

text \<open>\<^verbatim>\<open>isGitRepo\<close>: the directory has a \<^verbatim>\<open>.git\<close> entry.\<close>

definition isGitRepo :: "string \<Rightarrow> world \<Rightarrow> bool" where
  "isGitRepo dir w = (repos w dir \<noteq> None)"

text \<open>
  The operating system resolves a path that does not start at the root against the
  working directory of the process. The files of the world are kept under their
  absolute paths.
\<close>

definition absPath :: "world \<Rightarrow> string \<Rightarrow> string" where
  "absPath w path = (if path \<noteq> [] \<and> hd path = CHR ''/'' then path else Join (cwd w) path)"

text \<open>\<^verbatim>\<open>fileExists\<close> for a regular file.\<close>

definition fileExists :: "string \<Rightarrow> world \<Rightarrow> bool" where
  "fileExists filename w = (lockfiles w (absPath w filename) \<noteq> None)"

section \<open>Concurrent fetcher\<close>

text \<open>
  \<^verbatim>\<open>clonePackage\<close> runs as a goroutine with a channel of capacity one. The model gives
  the values it sends, in order, and the world it leaves. A panic of \<^verbatim>\<open>runCmd\<close> is
  recovered by the deferred function, which then sends a result without entry; after a
  run without panic the entry has been sent and the deferred function sends a second
  value.
\<close>

record channelResult =
  pkg :: string
  entry :: "bpmEntry option"

definition clonePackage :: "string \<Rightarrow> string \<Rightarrow> world \<Rightarrow> channelResult list \<times> world" where
  "clonePackage p pkgDir w =
     (let cloneURL = ''https://'' @ p; deferred = \<lparr>pkg = p, entry = None\<rparr>
      in case cloneRepo cloneURL pkgDir w of
           Inl e \<Rightarrow> ([deferred], w)
         | Inr w1 \<Rightarrow>
            (case getCurrentBranch pkgDir w1 of
               Inl e \<Rightarrow> ([deferred], w1)
             | Inr (branch, w2) \<Rightarrow>
                (case getCurrentCommitHash pkgDir w2 of
                   Inl e \<Rightarrow> ([deferred], w2)
                 | Inr (hash, w3) \<Rightarrow>
                    ([\<lparr>pkg = p, entry = Some (BpmEntry cloneURL branch hash [])\<rparr>, deferred],
                     w3))))"

text \<open>
  \<^verbatim>\<open>installPackages\<close>. The first loop starts one task per package; the tasks are run
  here one after the other, in the order of the list (they work in different
  directories). The second loop receives one value from each channel, the first that
  was sent, and keeps it when it has an entry. \<^verbatim>\<open>createDir\<close> changes nothing that the
  program reads back and is left out; \<^verbatim>\<open>filepath.FromSlash\<close> is the identity where the
  separator is a slash.
\<close>

fun startTasks :: "string list \<Rightarrow> string \<Rightarrow> world \<Rightarrow> channelResult list list \<times> world" where
  "startTasks [] vendorDir w = ([], w)"
| "startTasks (filename # rest) vendorDir w =
     (let pkgDir = Join vendorDir filename;
          (c, w1) = clonePackage filename pkgDir w;
          (channelList, w2) = startTasks rest vendorDir w1
      in (c # channelList, w2))"

fun receiveAll ::
  "channelResult list list \<Rightarrow> (string \<times> bpmEntry) list \<Rightarrow> (string \<times> bpmEntry) list" where
  "receiveAll [] dependencies = dependencies"
| "receiveAll ([] # channelList) dependencies = receiveAll channelList dependencies"
| "receiveAll ((result # later) # channelList) dependencies =
     (case entry result of
        None \<Rightarrow> receiveAll channelList dependencies
      | Some e \<Rightarrow> receiveAll channelList (AList.update (pkg result) e dependencies))"

definition installPackages ::
  "string list \<Rightarrow> string \<Rightarrow> world \<Rightarrow> (string \<times> bpmEntry) list \<times> world" where
  "installPackages packages dir w =
     (let vendorDir = Join dir vendorFolderName;
          (channelList, w1) = startTasks packages vendorDir w
      in (receiveAll channelList [], w1))"

text \<open>
  When a clone task succeeds, in terms of the world it starts in: the remote exists and
  has a commit at its head, and the target directory is not populated yet.
\<close>

definition fetchable :: "string \<Rightarrow> string \<Rightarrow> world \<Rightarrow> bool" where
  "fetchable url dir w =
     (case remotes w url of
        None \<Rightarrow> False
      | Some (r, t) \<Rightarrow> repos w dir = None \<and> map_of (trees w) dir = None \<and> head r \<noteq> None)"

text \<open>Two worlds that differ at most in one directory and in what has been run.\<close>

definition sameElsewhere :: "string \<Rightarrow> world \<Rightarrow> world \<Rightarrow> bool" where
  "sameElsewhere dir w w' =
     (remotes w' = remotes w \<and> cwd w' = cwd w \<and> lockfiles w' = lockfiles w \<and>
      stdout w' = stdout w \<and>
      (\<forall>d. d \<noteq> dir \<longrightarrow> repos w' d = repos w d \<and> map_of (trees w') d = map_of (trees w) d))"

text \<open>A commit hash as git prints it: hexadecimal digits, at least one.\<close>

definition isHash :: "string \<Rightarrow> bool" where
  "isHash h = (h \<noteq> [] \<and> (\<forall>c \<in> set h. c \<in> set ''0123456789abcdef''))"

definition remotesHashed :: "world \<Rightarrow> bool" where
  "remotesHashed w =
     (\<forall>url r t h. remotes w url = Some (r, t) \<longrightarrow> head r = Some h \<longrightarrow> isHash h)"

text \<open>The clone task of a package succeeds in a world, for the vendor directory given.\<close>

definition taskOk :: "string \<Rightarrow> world \<Rightarrow> string \<Rightarrow> bool" where
  "taskOk vd w q = fetchable (''https://'' @ q) (Join vd q) w"

text \<open>An entry carries what the remote of its package has at its head.\<close>

definition fetchedFrom :: "world \<Rightarrow> string \<Rightarrow> bpmEntry \<Rightarrow> bool" where
  "fetchedFrom w k e =
     (case remotes w (''https://'' @ k) of
        None \<Rightarrow> False
      | Some (r, t) \<Rightarrow>
         (case head r of
            None \<Rightarrow> False
          | Some h \<Rightarrow> URL e = ''https://'' @ k \<and>
                      Commit e = TrimRight (h @ ''\<newline>'') ''\<newline> ''))"

text \<open>
  A world with three remotes: the first on a branch, the second without any commit,
  the third with a detached head. The project in \<^verbatim>\<open>/proj\<close> has a remote \<^verbatim>\<open>origin\<close>.
\<close>

definition exampleRepo :: repo where
  "exampleRepo =
     \<lparr>branches = [(''dev'', ''2222''), (''master'', ''1111'')], current = ''master'',
      head = Some ''1111'', commits = [''1111'', ''2222''], checkedOut = ''1111'',
      origin = None\<rparr>"

definition exampleWorld :: world where
  "exampleWorld =
     \<lparr>cwd = ''/tmp'',
      lockfiles = (\<lambda>f. None),
      trees = [(''/proj'',
                [File ''main.go''
                   (Some [''\"fmt\"'', ''\"example.com/me/proj/util\"'',
                          ''\"example.com/org/one\"'']),
                 Dir ''util'' (Some [File ''util.go'' (Some [''\"strings\"''])])])],
      repos = [''/proj'' \<mapsto> exampleRepo\<lparr>origin := Some ''https://example.com/me/proj''\<rparr>],
      remotes = [''https://example.com/org/one'' \<mapsto> (exampleRepo, []),
                 ''https://example.com/org/two'' \<mapsto>
                    (exampleRepo\<lparr>branches := [], head := None\<rparr>, []),
                 ''https://example.com/org/three'' \<mapsto>
                    (exampleRepo\<lparr>current := [], head := Some ''2222''\<rparr>, [])],
      stdout = [],
      ran = []\<rparr>"

text \<open>
  Branch names as git admits them: not empty, and without blank, asterisk or line
  break. A repository is well formed when its local branches have such names, and a
  world when its repositories and remotes are.
\<close>

definition validName :: "string \<Rightarrow> bool" where
  "validName b = (b \<noteq> [] \<and> (\<forall>c \<in> set b. c \<noteq> CHR ''*'' \<and> c \<noteq> CHR '' '' \<and> c \<noteq> CHR ''\<newline>''))"

definition wfRepo :: "repo \<Rightarrow> bool" where
  "wfRepo r = (\<forall>b \<in> fst ` set (branches r). validName b)"


section \<open>Reconciler\<close>

text \<open>\<^verbatim>\<open>pullRepo\<close>. The entry is changed in place by the program; the model returns it,
  with \<open>entryBranch\<close> and \<open>entryCommit\<close> for the two fields after their assignment.\<close>

definition pullRepo :: "bpmEntry \<Rightarrow> string \<Rightarrow> world \<Rightarrow> error + (bpmEntry \<times> world)" where
  "pullRepo e pkgDir w =
     (case getCurrentBranch pkgDir w of
        Inl x \<Rightarrow> Inl x
      | Inr (branch, w1) \<Rightarrow>
         (let entryBranch = (if Branch e = [] then branch else Branch e)
          in case (if branch \<noteq> entryBranch then checkoutBranch pkgDir entryBranch w1
                   else Inr w1) of
               Inl x \<Rightarrow> Inl x
             | Inr w2 \<Rightarrow>
                (case getCurrentCommitHash pkgDir w2 of
                   Inl x \<Rightarrow> Inl x
                 | Inr (commit, w3) \<Rightarrow>
                    (let entryCommit = (if Commit e = [] then commit else Commit e)
                     in case (if commit \<noteq> entryCommit
                              then checkoutCommit pkgDir entryCommit w3
                              else Inr w3) of
                          Inl x \<Rightarrow> Inl x
                        | Inr w4 \<Rightarrow>
                            Inr (BpmEntry (URL e) entryBranch entryCommit (Dependencies e),
                                 w4)))))"

text \<open>
  \<^verbatim>\<open>pullPackage\<close>, the task of one entry. It sends nil on its channel when it is done; a
  panic in it is not recovered and ends the whole run. \<^verbatim>\<open>createDir\<close> is left out as in
  the fetcher.
\<close>

definition pullPackage ::
  "string \<Rightarrow> bpmEntry \<Rightarrow> string \<Rightarrow> world \<Rightarrow> error + (bpmEntry \<times> world)" where
  "pullPackage p e pkgDir w =
     (case (if \<not> isGitRepo pkgDir w then cloneRepo (URL e) pkgDir w else Inr w) of
        Inl x \<Rightarrow> Inl x
      | Inr w1 \<Rightarrow> pullRepo e pkgDir w1)"

text \<open>
  \<^verbatim>\<open>pullPackages\<close>. The first loop starts the task of every entry of the level; as in
  the fetcher the tasks are run one after the other, in the order of the list. The
  second loop receives from every channel and then reconciles the nested dependencies
  of that entry, which the task has not touched.
\<close>

fun pullTasks ::
  "(string \<times> bpmEntry) list \<Rightarrow> string \<Rightarrow> world \<Rightarrow> error + ((string \<times> bpmEntry) list \<times> world)"
  where
  "pullTasks [] vendorDir w = Inr ([], w)"
| "pullTasks ((p, data) # rest) vendorDir w =
     (case pullPackage p data (Join vendorDir p) w of
        Inl x \<Rightarrow> Inl x
      | Inr (data', w1) \<Rightarrow>
         (case pullTasks rest vendorDir w1 of
            Inl x \<Rightarrow> Inl x
          | Inr (rest', w2) \<Rightarrow> Inr ((p, data') # rest', w2)))"

text \<open>The number of entries of a graph, for the termination of the reconciler.\<close>

fun entryCount :: "bpmEntry \<Rightarrow> nat" where
  "entryCount (BpmEntry url branch commit deps) =
     Suc (sum_list (map (\<lambda>(k, e). entryCount e) deps))"

definition depsCount :: "(string \<times> bpmEntry) list \<Rightarrow> nat" where
  "depsCount deps = sum_list (map (\<lambda>(k, e). entryCount e) deps)"

lemma entryCount_eq: "entryCount e = Suc (depsCount (Dependencies e))"
  by (cases e) (simp add: depsCount_def)

lemma depsCount_Cons: "depsCount ((p, e) # rest) = entryCount e + depsCount rest"
  by (simp add: depsCount_def)

lemma pullRepo_keeps:
  "pullRepo e pkgDir w = Inr r \<Longrightarrow>
     Dependencies (fst r) = Dependencies e \<and> URL (fst r) = URL e"
  by (auto simp: pullRepo_def Let_def split: sum.splits prod.splits if_splits)

lemma pullPackage_keeps:
  "pullPackage p e pkgDir w = Inr r \<Longrightarrow>
     Dependencies (fst r) = Dependencies e \<and> URL (fst r) = URL e"
  by (auto simp: pullPackage_def split: sum.splits if_splits dest: pullRepo_keeps)

lemma pullPackage_Dependencies:
  "pullPackage p e pkgDir w = Inr (e', w') \<Longrightarrow> Dependencies e' = Dependencies e"
  using pullPackage_keeps [of p e pkgDir w "(e', w')"] by simp

lemma pullTasks_depsCount:
  "pullTasks deps vendorDir w = Inr (deps', w') \<Longrightarrow> depsCount deps' = depsCount deps"
proof (induction deps arbitrary: deps' w w')
  case Nil
  then show ?case by simp
next
  case (Cons x deps)
  obtain p e where x: "x = (p, e)" by (cases x)
  from Cons.prems obtain e1 w1 rest1 where
    a: "pullPackage p e (Join vendorDir p) w = Inr (e1, w1)" and
    b: "pullTasks deps vendorDir w1 = Inr (rest1, w')" and
    c: "deps' = (p, e1) # rest1"
    by (auto simp: x split: sum.splits prod.splits)
  have "entryCount e1 = entryCount e"
    using pullPackage_Dependencies [OF a] by (simp add: entryCount_eq)
  then show ?case using Cons.IH [OF b] by (simp add: c x depsCount_Cons)
qed

function pullPackages ::
  "(string \<times> bpmEntry) list \<Rightarrow> string \<Rightarrow> world \<Rightarrow> error + ((string \<times> bpmEntry) list \<times> world)"
  and pullChildren ::
  "(string \<times> bpmEntry) list \<Rightarrow> string \<Rightarrow> world \<Rightarrow> error + ((string \<times> bpmEntry) list \<times> world)"
  where
  "pullPackages dependencies dir w =
     (if dependencies = [] then Inr ([], w)
      else (case pullTasks dependencies (Join dir vendorFolderName) w of
              Inl x \<Rightarrow> Inl x
            | Inr (pinned, w1) \<Rightarrow> pullChildren pinned (Join dir vendorFolderName) w1))"
| "pullChildren [] vendorDir w = Inr ([], w)"
| "pullChildren ((p, data) # rest) vendorDir w =
     (case pullPackages (Dependencies data) (Join vendorDir p) w of
        Inl x \<Rightarrow> Inl x
      | Inr (children, w1) \<Rightarrow>
         (case pullChildren rest vendorDir w1 of
            Inl x \<Rightarrow> Inl x
          | Inr (rest', w2) \<Rightarrow>
              Inr ((p, BpmEntry (URL data) (Branch data) (Commit data) children) # rest', w2)))"
  by pat_completeness auto
termination
  by (relation "measure (\<lambda>x. case x of
                   Inl (deps, dir, w) \<Rightarrow> 2 * depsCount deps + 1
                 | Inr (deps, vd, w) \<Rightarrow> 2 * depsCount deps)")
     (auto simp: depsCount_Cons entryCount_eq dest: pullTasks_depsCount)





text \<open>
  The directories that the reconciler works in: for every entry of the graph the
  directory of its package, below the vendor directory of its parent.
\<close>

fun dirsOfDeps :: "(string \<times> bpmEntry) list \<Rightarrow> string \<Rightarrow> string list" where
  "dirsOfDeps [] vendorDir = []"
| "dirsOfDeps ((p, BpmEntry url branch commit deps) # rest) vendorDir =
     Join vendorDir p # dirsOfDeps deps (Join (Join vendorDir p) vendorFolderName)
       @ dirsOfDeps rest vendorDir"



text \<open>A world changes only in the repositories and trees of the given directories, and
  in what has been run.\<close>

definition onlyTouches :: "string set \<Rightarrow> world \<Rightarrow> world \<Rightarrow> bool" where
  "onlyTouches S w w' =
     (remotes w' = remotes w \<and> cwd w' = cwd w \<and> lockfiles w' = lockfiles w \<and>
      stdout w' = stdout w \<and>
      (\<forall>d. d \<notin> S \<longrightarrow> repos w' d = repos w d \<and> map_of (trees w') d = map_of (trees w) d))"


text \<open>A step that changes the repository of one directory at most, and what has been
  run.\<close>

definition repoStep :: "string \<Rightarrow> world \<Rightarrow> world \<Rightarrow> bool" where
  "repoStep dir w w' =
     (trees w' = trees w \<and> remotes w' = remotes w \<and> cwd w' = cwd w \<and>
      lockfiles w' = lockfiles w \<and> stdout w' = stdout w \<and>
      (\<forall>d. d \<noteq> dir \<longrightarrow> repos w' d = repos w d))"


text \<open>The directories of the nested entries of a level.\<close>

fun childDirs :: "(string \<times> bpmEntry) list \<Rightarrow> string \<Rightarrow> string list" where
  "childDirs [] vendorDir = []"
| "childDirs ((p, BpmEntry url branch commit deps) # rest) vendorDir =
     dirsOfDeps deps (Join (Join vendorDir p) vendorFolderName) @ childDirs rest vendorDir"





section \<open>Dependency resolver\<close>

text \<open>
  Reading a source file. The files of a tree with their full paths, and \<open>readFile\<close> for
  what \<^verbatim>\<open>ioutil.ReadFile\<close> followed by \<^verbatim>\<open>parser.ParseFile\<close> gives: \<open>None\<close> when there is no
  such file, \<open>Some None\<close> when it does not parse, otherwise its import literals.
\<close>

fun fileTable :: "string \<Rightarrow> node list \<Rightarrow> (string \<times> string list option) list" where
  "fileTable dir [] = []"
| "fileTable dir (File name c # fs) = (Join dir name, c) # fileTable dir fs"
| "fileTable dir (Dir name None # fs) = fileTable dir fs"
| "fileTable dir (Dir name (Some l) # fs) = fileTable (Join dir name) l @ fileTable dir fs"

definition readFile :: "world \<Rightarrow> string \<Rightarrow> string list option option" where
  "readFile w fname = map_of (concat (map (\<lambda>(d, t). fileTable d t) (trees w))) fname"

text \<open>\<^verbatim>\<open>getAllImports\<close>: the import specs of every file, by file name; a file that cannot
  be read or parsed is a panic.\<close>

fun importsLoop ::
  "string list \<Rightarrow> world \<Rightarrow> (string \<times> string list) list \<Rightarrow> error + (string \<times> string list) list"
  where
  "importsLoop [] w imports = Inr imports"
| "importsLoop (fname # rest) w imports =
     (case readFile w fname of
        None \<Rightarrow> Inl (ReadFileFailed fname)
      | Some None \<Rightarrow> Inl (ParseFailed fname)
      | Some (Some specs) \<Rightarrow> importsLoop rest w (AList.update fname specs imports))"

definition getAllImports :: "string list \<Rightarrow> world \<Rightarrow> error + (string \<times> string list) list" where
  "getAllImports fnames w = importsLoop fnames w []"

text \<open>
  \<^verbatim>\<open>resolveDependencies\<close>. A package that depends on a package that depends on it is
  cloned below itself again and again, so the recursion need not end: the first
  argument bounds its depth, and \<open>None\<close> says that the bound was reached.
\<close>

fun resolveDependencies ::
  "nat \<Rightarrow> string \<Rightarrow> string \<Rightarrow> world \<Rightarrow> (error + ((string \<times> bpmEntry) list \<times> world)) option"
  and resolveEntries ::
  "nat \<Rightarrow> (string \<times> bpmEntry) list \<Rightarrow> string \<Rightarrow> world \<Rightarrow>
     (error + ((string \<times> bpmEntry) list \<times> world)) option"
  where
  "resolveDependencies 0 dir p w = None"
| "resolveDependencies (Suc n) dir p w =
     (case getAllSourceFiles dir (map_of (trees w) dir) of
        Inl x \<Rightarrow> Some (Inl x)
      | Inr fnames \<Rightarrow>
         (case getAllImports fnames w of
            Inl x \<Rightarrow> Some (Inl x)
          | Inr imports \<Rightarrow>
             (case installPackages (getImports imports p) dir w of
                (dependencies, w1) \<Rightarrow> resolveEntries n dependencies dir w1)))"
| "resolveEntries n [] dir w = Some (Inr ([], w))"
| "resolveEntries n ((p, e) # rest) dir w =
     (case resolveDependencies n (Join (Join dir vendorFolderName) p) p w of
        None \<Rightarrow> None
      | Some (Inl x) \<Rightarrow> Some (Inl x)
      | Some (Inr (nested, w1)) \<Rightarrow>
         (case resolveEntries n rest dir w1 of
            None \<Rightarrow> None
          | Some (Inl x) \<Rightarrow> Some (Inl x)
          | Some (Inr (rest', w2)) \<Rightarrow>
              Some (Inr ((p, BpmEntry (URL e) (Branch e) (Commit e) nested) # rest', w2))))"

section \<open>Commands\<close>

text \<open>\<^verbatim>\<open>strings.TrimSpace\<close>, for the white space of ASCII.\<close>

definition TrimSpace :: "string \<Rightarrow> string" where
  "TrimSpace s = Trim s [CHR '' '', CHR 0x09, CHR 0x0A, CHR 0x0B, CHR 0x0C, CHR 0x0D]"

text \<open>
  \<^verbatim>\<open>getCurrentPackage\<close>. \<^verbatim>\<open>url.Parse\<close> is a parameter: it gives the host name and the raw
  path of a URL, or \<open>None\<close> for its error. The messages go to standard output.
\<close>

definition getCurrentPackage ::
  "(string \<Rightarrow> (string \<times> string) option) \<Rightarrow> string \<Rightarrow> world \<Rightarrow> error + (string \<times> world)" where
  "getCurrentPackage urlParse dir w =
     (case runCmd (Some dir) True ''git'' [''remote'', ''get-url'', ''origin''] w of
        Inl x \<Rightarrow> Inl x
      | Inr (result, w1) \<Rightarrow>
         (case urlParse result of
            None \<Rightarrow>
              Inr ([], w1\<lparr>stdout := stdout w1 @ [''Could not resolve current repo origin: '']\<rparr>)
          | Some (hostname, rawPath) \<Rightarrow>
             (let p0 = TrimSpace (hostname @ rawPath);
                  p1 = (if HasSuffix p0 ''.git'' then take (length p0 - 4) p0 else p0)
              in if MatchString getPackagePattern p1
                 then Inr (FindString getPackagePattern p1, w1)
                 else Inr ([], w1\<lparr>stdout := stdout w1 @
                                       [''Repo origin is not a valid package: '' @ p1]\<rparr>))))"

text \<open>
  \<^verbatim>\<open>writeDataFile\<close> writes to the bare file name \<^verbatim>\<open>bpm.json\<close>, which the operating system
  resolves against the working directory; the write is taken to succeed.
  \<^verbatim>\<open>readDataFile\<close> reads the file it is given.
\<close>

definition writeDataFile :: "bpmPackage \<Rightarrow> world \<Rightarrow> world" where
  "writeDataFile data w =
     w\<lparr>lockfiles := (lockfiles w)(absPath w dependencyFilename \<mapsto> Some (jsonEncodeIndented data))\<rparr>"

definition readDataFile :: "string \<Rightarrow> world \<Rightarrow> error + bpmPackage" where
  "readDataFile filename w =
     (case lockfiles w (absPath w filename) of
        None \<Rightarrow> Inl (ReadFileFailed filename)
      | Some None \<Rightarrow> Inl DecodeFailed
      | Some (Some j) \<Rightarrow> jsonUnmarshal j)"

text \<open>\<^verbatim>\<open>removeDir\<close>: everything at or below the directory goes.\<close>

definition under :: "string \<Rightarrow> string \<Rightarrow> bool" where
  "under dir path = (path = dir \<or> prefix (dir @ ''/'') path)"

definition removeDir :: "string \<Rightarrow> world \<Rightarrow> world" where
  "removeDir dir w =
     w\<lparr>repos := (\<lambda>d. if under dir d then None else repos w d),
       trees := filter (\<lambda>(d, t). \<not> under dir d) (trees w),
       lockfiles := (\<lambda>f. if under dir f then None else lockfiles w f)\<rparr>"

text \<open>\<^verbatim>\<open>doInit\<close>, \<^verbatim>\<open>doInstall\<close> and \<^verbatim>\<open>doRebuild\<close>. The commands that resolve take the
  bound on the depth of the resolution.\<close>

definition doInit ::
  "(string \<Rightarrow> (string \<times> string) option) \<Rightarrow> nat \<Rightarrow> string \<Rightarrow> world \<Rightarrow> (error + world) option" where
  "doInit urlParse n dir w =
     (let depFile = Join dir dependencyFilename
      in if fileExists depFile w
         then Some (Inr (w\<lparr>stdout := stdout w @
                              [dependencyFilename @ '' already exists: '' @ depFile]\<rparr>))
         else (case getCurrentPackage urlParse dir w of
                 Inl x \<Rightarrow> Some (Inl x)
               | Inr (p, w1) \<Rightarrow>
                  if p = [] then Some (Inr w1)
                  else (case resolveDependencies n dir p w1 of
                          None \<Rightarrow> None
                        | Some (Inl x) \<Rightarrow> Some (Inl x)
                        | Some (Inr (dependencies, w2)) \<Rightarrow>
                            Some (Inr (writeDataFile
                                         \<lparr>Package = p, PackageDependencies = dependencies\<rparr>
                                         w2)))))"

definition doInstall :: "string \<Rightarrow> world \<Rightarrow> error + world" where
  "doInstall dir w =
     (let depFile = Join dir dependencyFilename
      in if \<not> fileExists depFile w
         then Inr (w\<lparr>stdout := stdout w @
                        [dependencyFilename @ '' does not exist: '' @ depFile]\<rparr>)
         else (case readDataFile depFile w of
                 Inl x \<Rightarrow> Inl x
               | Inr data \<Rightarrow>
                  (case pullPackages (PackageDependencies data) dir w of
                     Inl x \<Rightarrow> Inl x
                   | Inr (dependencies, w1) \<Rightarrow>
                       Inr (writeDataFile (data\<lparr>PackageDependencies := dependencies\<rparr>) w1))))"

definition doRebuild ::
  "(string \<Rightarrow> (string \<times> string) option) \<Rightarrow> nat \<Rightarrow> string \<Rightarrow> world \<Rightarrow> (error + world) option" where
  "doRebuild urlParse n dir w =
     (case getCurrentPackage urlParse dir
             (w\<lparr>stdout := stdout w @ [''Working dir: '' @ dir]\<rparr>) of
        Inl x \<Rightarrow> Some (Inl x)
      | Inr (p, w1) \<Rightarrow>
         if p = [] then Some (Inr w1)
         else (case resolveDependencies n dir p (removeDir (Join dir vendorFolderName) w1) of
                 None \<Rightarrow> None
               | Some (Inl x) \<Rightarrow> Some (Inl x)
               | Some (Inr (dependencies, w2)) \<Rightarrow>
                   Some (Inr (writeDataFile
                                \<lparr>Package = p, PackageDependencies = dependencies\<rparr> w2))))"

text \<open>
  The identity of a project cannot be determined from the output of the remote query:
  it is no URL, or host and path do not match the pattern.
\<close>

definition unresolvable :: "(string \<Rightarrow> (string \<times> string) option) \<Rightarrow> string \<Rightarrow> bool" where
  "unresolvable urlParse result =
     (case urlParse result of
        None \<Rightarrow> True
      | Some (hostname, rawPath) \<Rightarrow>
          \<not> MatchString getPackagePattern
              (if HasSuffix (TrimSpace (hostname @ rawPath)) ''.git''
               then take (length (TrimSpace (hostname @ rawPath)) - 4)
                         (TrimSpace (hostname @ rawPath))
               else TrimSpace (hostname @ rawPath)))"

text \<open>The lockfile found at a path after a command, if the command returns.\<close>

definition lockfileAfter :: "string \<Rightarrow> error + world \<Rightarrow> json option option" where
  "lockfileAfter path r = (case r of Inl x \<Rightarrow> None | Inr w \<Rightarrow> lockfiles w path)"

text \<open>
  A project in \<^verbatim>\<open>/proj\<close> with a lockfile whose only entry has not been pinned yet; the
  command is started in \<^verbatim>\<open>/tmp\<close>.
\<close>

definition installWorld :: world where
  "installWorld =
     exampleWorld\<lparr>lockfiles :=
       [''/proj/bpm.json'' \<mapsto>
          Some (JObject [(''package'', JString ''example.com/me/proj''),
                         (''dependencies'',
                          JObject [(''example.com/org/one'',
                                    JObject [(''url'', JString ''https://example.com/org/one''),
                                             (''dependencies'', JObject [])])])])]\<rparr>"

text \<open>A simple stand-in for \<^verbatim>\<open>url.Parse\<close>: the host is what lies between \<^verbatim>\<open>://\<close> and the
  next slash, the raw path is the rest; a string without \<^verbatim>\<open>://\<close> is an error.\<close>

fun afterScheme :: "string \<Rightarrow> string option" where
  "afterScheme [] = None"
| "afterScheme (c # s) =
     (if take 3 (c # s) = ''://'' then Some (drop 3 (c # s)) else afterScheme s)"

definition simpleParse :: "string \<Rightarrow> (string \<times> string) option" where
  "simpleParse s =
     (case afterScheme s of
        None \<Rightarrow> None
      | Some rest \<Rightarrow> Some (takeWhile (\<lambda>c. c \<noteq> CHR ''/'') rest,
                            dropWhile (\<lambda>c. c \<noteq> CHR ''/'') rest))"

text \<open>The example project without a remote.\<close>

definition noRemoteWorld :: world where
  "noRemoteWorld = exampleWorld\<lparr>repos := [''/proj'' \<mapsto> exampleRepo]\<rparr>"

text \<open>The panic that ends a command, if it ends so.\<close>

definition failure :: "(error + world) option \<Rightarrow> error option" where
  "failure r = (case r of None \<Rightarrow> None | Some (Inl x) \<Rightarrow> Some x | Some (Inr w) \<Rightarrow> None)"

text \<open>The message that \<^verbatim>\<open>getCurrentPackage\<close> prints when the identity cannot be
  determined.\<close>

definition identityMessage :: "(string \<Rightarrow> (string \<times> string) option) \<Rightarrow> string \<Rightarrow> string" where
  "identityMessage urlParse result =
     (case urlParse result of
        None \<Rightarrow> ''Could not resolve current repo origin: ''
      | Some (hostname, rawPath) \<Rightarrow>
          ''Repo origin is not a valid package: '' @
          (if HasSuffix (TrimSpace (hostname @ rawPath)) ''.git''
           then take (length (TrimSpace (hostname @ rawPath)) - 4)
                     (TrimSpace (hostname @ rawPath))
           else TrimSpace (hostname @ rawPath)))"

text \<open>The example project with an origin of too few path segments.\<close>

definition shortOriginRepo :: repo where
  "shortOriginRepo = exampleRepo\<lparr>origin := Some ''https://example.com/me''\<rparr>"

definition shortOriginWorld :: world where
  "shortOriginWorld = exampleWorld\<lparr>repos := [''/proj'' \<mapsto> shortOriginRepo]\<rparr>"

section \<open>Properties of the package path matcher\<close>

lemma set_addImport: "set (addImport v acc) = set acc \<union> matched {v}"
  by (auto simp: addImport_def matched_def Let_def)

lemma matched_Un: "matched (A \<union> B) = matched A \<union> matched B"
  by (auto simp: matched_def)

lemma matched_insert: "matched (insert v A) = matched {v} \<union> matched A"
  using matched_Un [of "{v}" A] by simp

lemma matched_empty: "matched {} = {}"
  by (simp add: matched_def)

lemma matched_single:
  "matched {v} = (case matchSeq getPackagePattern (Trim v ''\"'') of
                    None \<Rightarrow> {} | Some n \<Rightarrow> {take n (Trim v ''\"'')})"
  by (auto simp: matched_def MatchString_def FindString_def split: option.splits)

lemma matched3: "matched {a, b, c} = matched {a} \<union> matched {b} \<union> matched {c}"
  by (auto simp: matched_def)

lemma set_fold_addImport: "set (fold addImport arr acc) = set acc \<union> matched (set arr)"
proof (induction arr arbitrary: acc)
  case Nil
  show ?case by (simp add: matched_empty)
next
  case (Cons v arr)
  show ?case using matched_insert [of v "set arr"]
    by (simp add: Cons.IH set_addImport Un_assoc)
qed

lemma distinct_addImport: "distinct acc \<Longrightarrow> distinct (addImport v acc)"
  by (simp add: addImport_def Let_def)

lemma distinct_fold_addImport: "distinct acc \<Longrightarrow> distinct (fold addImport arr acc)"
  by (induction arr arbitrary: acc) (simp_all add: distinct_addImport)

lemma set_fold_files:
  "set (fold (\<lambda>(fname, arr) acc. fold addImport arr acc) m acc)
     = set acc \<union> matched (allImports m)"
proof (induction m arbitrary: acc)
  case Nil
  show ?case by (simp add: allImports_def matched_empty)
next
  case (Cons fa m)
  obtain f arr where fa: "fa = (f, arr)" by (cases fa)
  have "allImports (fa # m) = set arr \<union> allImports m"
    by (simp add: allImports_def fa)
  then show ?case
    by (simp add: Cons.IH fa set_fold_addImport matched_Un Un_assoc)
qed

lemma distinct_fold_files:
  "distinct acc \<Longrightarrow> distinct (fold (\<lambda>(fname, arr) acc. fold addImport arr acc) m acc)"
proof (induction m arbitrary: acc)
  case Nil
  then show ?case by simp
next
  case (Cons fa m)
  obtain f arr where fa: "fa = (f, arr)" by (cases fa)
  show ?case using Cons by (simp add: fa distinct_fold_addImport)
qed

lemma set_importKeys: "set (importKeys m) = matched (allImports m)"
  by (simp add: importKeys_def set_fold_files)

lemma distinct_importKeys: "distinct (importKeys m)"
  by (simp add: importKeys_def distinct_fold_files)

lemma getImports_importKeys:
  "getImports m cur = filter (\<lambda>key. key \<noteq> cur) (map (\<lambda>key. Trim key ''\"'') (importKeys m))"
  by (simp add: getImports_def importKeys_def)

lemma distinct_singleton: "distinct xs \<Longrightarrow> set xs = {a} \<Longrightarrow> xs = [a]"
  by (cases xs) (auto simp: insert_eq_iff dest: subset_singletonD)

lemma trim_sub_pkg:
  "Trim ''\"example.com/org/repo/sub/pkg\"'' ''\"'' = ''example.com/org/repo/sub/pkg''"
  by code_simp

lemma trim_fmt: "Trim ''\"fmt\"'' ''\"'' = ''fmt''"
  by code_simp

lemma trim_repo: "Trim ''\"example.com/org/repo\"'' ''\"'' = ''example.com/org/repo''"
  by code_simp

lemma trim_repo_bare: "Trim ''example.com/org/repo'' ''\"'' = ''example.com/org/repo''"
  by code_simp

lemma match_sub_pkg: "matchSeq getPackagePattern ''example.com/org/repo/sub/pkg'' = Some 20"
  by code_simp

lemma match_fmt: "matchSeq getPackagePattern ''fmt'' = None"
  by code_simp

lemma match_repo: "matchSeq getPackagePattern ''example.com/org/repo'' = Some 20"
  by code_simp

lemma matched_sub_pkg:
  "matched {''\"example.com/org/repo/sub/pkg\"''} = {''example.com/org/repo''}"
  by (simp add: matched_single trim_sub_pkg match_sub_pkg)

lemma matched_fmt: "matched {''\"fmt\"''} = {}"
  by (simp add: matched_single trim_fmt match_fmt)

lemma matched_repo: "matched {''\"example.com/org/repo\"''} = {''example.com/org/repo''}"
  by (simp add: matched_single trim_repo match_repo)

text \<open>
  Claim C7 (pattern matching boundary). Whenever the import literals of the scanned files
  are exactly \<^verbatim>\<open>"example.com/org/repo/sub/pkg"\<close>, \<^verbatim>\<open>"fmt"\<close> and \<^verbatim>\<open>"example.com/org/repo"\<close>, in any
  files and any number of times, and the current package is not \<^verbatim>\<open>example.com/org/repo\<close>,
  \<^verbatim>\<open>getImports\<close> returns the one identifier \<^verbatim>\<open>example.com/org/repo\<close>, once: the sub-package
  path is cut to its first three segments, the two occurrences collapse, and the
  one-segment path is left out.
\<close>

theorem getImports_boundary:
  assumes "allImports importMap =
             {''\"example.com/org/repo/sub/pkg\"'', ''\"fmt\"'', ''\"example.com/org/repo\"''}"
    and "currentPkg \<noteq> ''example.com/org/repo''"
  shows "getImports importMap currentPkg = [''example.com/org/repo'']"
proof -
  have "matched (allImports importMap) = {''example.com/org/repo''}"
    unfolding assms(1) matched3 matched_sub_pkg matched_fmt matched_repo by simp
  then have "set (importKeys importMap) = {''example.com/org/repo''}"
    by (simp add: set_importKeys)
  then have "importKeys importMap = [''example.com/org/repo'']"
    by (rule distinct_singleton [OF distinct_importKeys])
  then show ?thesis using assms(2)
    by (simp add: getImports_importKeys trim_repo_bare)
qed

theorem getImports_boundary_witness:
  "getImports [(''a.go'', [''\"example.com/org/repo/sub/pkg\"'', ''\"fmt\"'', ''\"fmt\"'']),
               (''b.go'', [''\"example.com/org/repo\"''])] ''example.com/me/proj''
     = [''example.com/org/repo'']"
proof -
  have "allImports [(''a.go'', [''\"example.com/org/repo/sub/pkg\"'', ''\"fmt\"'', ''\"fmt\"'']),
               (''b.go'', [''\"example.com/org/repo\"''])] =
         {''\"example.com/org/repo/sub/pkg\"'', ''\"fmt\"'', ''\"example.com/org/repo\"''}"
    unfolding allImports_def by (simp add: insert_commute)
  moreover have "''example.com/me/proj'' \<noteq> ''example.com/org/repo''" by simp
  ultimately show ?thesis by (rule getImports_boundary)
qed


section \<open>Properties of the source scanner\<close>

lemma HasSuffix_suffix: "HasSuffix s suf = suffix suf s"
  unfolding HasSuffix_def suffix_def
  by (metis add_diff_cancel_right' append_eq_conv_conj append_take_drop_id le_add2 length_append length_drop)

lemma suffix_go_sep: "suffix ''.go'' (d @ CHR ''/'' # name) = suffix ''.go'' name"
  by (auto simp: suffix_append suffix_Cons Cons_eq_append_conv)

lemma HasSuffix_Join: "HasSuffix (Join dir name) ''.go'' = HasSuffix name ''.go''"
proof (cases "dir = []")
  case True
  then show ?thesis by (simp add: Join_def)
next
  case False
  show ?thesis
  proof (cases "last dir = CHR ''/''")
    case True
    with False have "dir = butlast dir @ [CHR ''/'']"
      by (metis append_butlast_last_id)
    then have "Join dir name = butlast dir @ CHR ''/'' # name"
      using False True by (simp add: Join_def)
    then show ?thesis by (simp only: HasSuffix_suffix suffix_go_sep)
  next
    case False
    then show ?thesis using \<open>dir \<noteq> []\<close>
      by (simp add: Join_def HasSuffix_suffix suffix_go_sep)
  qed
qed

lemma sourceFiles_Nil: "sourceFiles dir [] = {}"
  by (simp add: sourceFiles_def)

lemma image_filter_Un:
  "f ` {e \<in> A \<union> B. Q e} = f ` {e \<in> A. Q e} \<union> f ` {e \<in> B. Q e}"
  by blast

lemma image_filter_image:
  "f ` {e \<in> g ` W. Q e} = (\<lambda>w. f (g w)) ` {w \<in> W. Q (g w)}"
  by blast

lemma pathOf_Nil: "pathOf dir ([], f) = Join dir f"
  by (simp add: pathOf_def)

lemma pathOf_Cons: "pathOf dir (d # ds, f) = pathOf (Join dir d) (ds, f)"
  by (simp add: pathOf_def)

lemma sourceFiles_File:
  "sourceFiles dir (File name c # fs) =
     (if HasSuffix name ''.go'' then {Join dir name} else {}) \<union> sourceFiles dir fs"
proof -
  have "set (walk (File name c # fs)) = {([], name)} \<union> set (walk fs)" by simp
  then have "sourceFiles dir (File name c # fs) =
      pathOf dir ` {e \<in> {([], name)}. vendorFolderName \<notin> set (fst e) \<and> HasSuffix (snd e) ''.go''}
        \<union> sourceFiles dir fs"
    unfolding sourceFiles_def by (simp only: image_filter_Un)
  moreover have "pathOf dir ` {e \<in> {([], name)}. vendorFolderName \<notin> set (fst e) \<and> HasSuffix (snd e) ''.go''}
      = (if HasSuffix name ''.go'' then {Join dir name} else {})"
    by (auto simp: pathOf_Nil)
  ultimately show ?thesis by simp
qed

lemma sourceFiles_Dir_None: "sourceFiles dir (Dir name None # fs) = sourceFiles dir fs"
  by (simp add: sourceFiles_def)

lemma sourceFiles_Dir_Some:
  "sourceFiles dir (Dir name (Some l) # fs) =
     (if name = vendorFolderName then {} else sourceFiles (Join dir name) l)
       \<union> sourceFiles dir fs"
proof -
  let ?g = "\<lambda>(ds, f). (name # ds, f)"
  let ?Q = "\<lambda>e. vendorFolderName \<notin> set (fst e) \<and> HasSuffix (snd e) ''.go''"
  have "set (walk (Dir name (Some l) # fs)) = ?g ` set (walk l) \<union> set (walk fs)" by simp
  then have "sourceFiles dir (Dir name (Some l) # fs) =
      pathOf dir ` {e \<in> ?g ` set (walk l). ?Q e} \<union> sourceFiles dir fs"
    unfolding sourceFiles_def by (simp only: image_filter_Un)
  moreover have "pathOf dir ` {e \<in> ?g ` set (walk l). ?Q e}
      = (if name = vendorFolderName then {} else sourceFiles (Join dir name) l)"
  proof (cases "name = vendorFolderName")
    case True
    then show ?thesis by auto
  next
    case False
    have "pathOf dir ` {e \<in> ?g ` set (walk l). ?Q e}
            = (\<lambda>w. pathOf dir (?g w)) ` {w \<in> set (walk l). ?Q (?g w)}"
      by (rule image_filter_image)
    also have "{w \<in> set (walk l). ?Q (?g w)} = {w \<in> set (walk l). ?Q w}"
      using False by (auto split: prod.splits)
    also have "(\<lambda>w. pathOf dir (?g w)) = pathOf (Join dir name)"
      by (rule ext) (simp add: pathOf_Cons split: prod.splits)
    finally show ?thesis using False by (simp add: sourceFiles_def)
  qed
  ultimately show ?thesis by simp
qed

lemma scan_exact:
  "(\<forall>sub. l = Some sub \<and> readable sub \<longrightarrow>
      (\<exists>r. getAllSourceFiles dir l = Inr r \<and> set r = sourceFiles dir sub))"
  "(readable fs \<longrightarrow>
      (\<exists>r. scanEntries dir fs acc = Inr (acc @ r) \<and> set r = sourceFiles dir fs))"
proof (induction dir l and dir fs acc rule: getAllSourceFiles_scanEntries.induct)
  case (1 dir)
  show ?case by simp
next
  case (2 dir files)
  then show ?case by simp
next
  case (3 dir result)
  show ?case by (simp add: sourceFiles_Nil)
next
  case (4 dir name c fs result)
  show ?case
  proof (cases "HasSuffix (Join dir name) ''.go''")
    case True
    show ?thesis
    proof
      assume "readable (File name c # fs)"
      then have "readable fs" by simp
      with 4(1) [OF refl True] obtain r where
        r: "scanEntries dir fs (result @ [Join dir name]) = Inr ((result @ [Join dir name]) @ r)"
           "set r = sourceFiles dir fs" by blast
      have "scanEntries dir (File name c # fs) result = Inr (result @ (Join dir name # r))"
        using True r(1) by simp
      moreover have "set (Join dir name # r) = sourceFiles dir (File name c # fs)"
        using True r(2) by (simp add: sourceFiles_File HasSuffix_Join)
      ultimately show "\<exists>r. scanEntries dir (File name c # fs) result = Inr (result @ r) \<and>
                          set r = sourceFiles dir (File name c # fs)" by blast
    qed
  next
    case False
    show ?thesis
    proof
      assume "readable (File name c # fs)"
      then have "readable fs" by simp
      with 4(2) [OF refl False] obtain r where
        r: "scanEntries dir fs result = Inr (result @ r)" "set r = sourceFiles dir fs" by blast
      have "scanEntries dir (File name c # fs) result = Inr (result @ r)"
        using False r(1) by simp
      moreover have "set r = sourceFiles dir (File name c # fs)"
        using False r(2) by (simp add: sourceFiles_File HasSuffix_Join)
      ultimately show "\<exists>r. scanEntries dir (File name c # fs) result = Inr (result @ r) \<and>
                          set r = sourceFiles dir (File name c # fs)" by blast
    qed
  qed
next
  case (5 dir name l fs result)
  show ?case
  proof (cases "name = vendorFolderName")
    case True
    show ?thesis
    proof
      assume "readable (Dir name l # fs)"
      then have "readable fs" by simp
      with 5(1) [OF refl True] obtain r where
        r: "scanEntries dir fs result = Inr (result @ r)" "set r = sourceFiles dir fs" by blast
      have "scanEntries dir (Dir name l # fs) result = Inr (result @ r)"
        using True r(1) by simp
      moreover have "set r = sourceFiles dir (Dir name l # fs)"
        using True r(2) by (cases l) (simp_all add: sourceFiles_Dir_None sourceFiles_Dir_Some)
      ultimately show "\<exists>r. scanEntries dir (Dir name l # fs) result = Inr (result @ r) \<and>
                          set r = sourceFiles dir (Dir name l # fs)" by blast
    qed
  next
    case False
    show ?thesis
    proof
      assume rd: "readable (Dir name l # fs)"
      then obtain sub where sub: "l = Some sub" "readable sub" and rfs: "readable fs"
        using False by (cases l) auto
      from 5(2) [OF refl False] sub obtain b where
        b: "getAllSourceFiles (Join dir name) l = Inr b" "set b = sourceFiles (Join dir name) sub"
        by blast
      from 5(3) [OF refl False b(1)] rfs obtain r where
        r: "scanEntries dir fs (result @ b) = Inr ((result @ b) @ r)" "set r = sourceFiles dir fs"
        by blast
      have "scanEntries dir (Dir name l # fs) result = Inr (result @ (b @ r))"
        using False b(1) r(1) by simp
      moreover have "set (b @ r) = sourceFiles dir (Dir name l # fs)"
        using False b(2) r(2) sub(1) by (simp add: sourceFiles_Dir_Some)
      ultimately show "\<exists>r. scanEntries dir (Dir name l # fs) result = Inr (result @ r) \<and>
                          set r = sourceFiles dir (Dir name l # fs)" by blast
    qed
  qed
qed

text \<open>
  Claim C10 (what the source scanner returns). When every directory that the scanner
  enters can be listed, \<^verbatim>\<open>getAllSourceFiles\<close> returns, and the paths it returns are exactly
  those of the entries below the root that are not directories, whose names end in
  \<^verbatim>\<open>.go\<close>, and that have no directory named \<^verbatim>\<open>vendor\<close> above them: every other file is
  left out without notice, whatever its name.
\<close>

theorem getAllSourceFiles_exact:
  assumes "readable files"
  shows "\<exists>fs. getAllSourceFiles dir (Some files) = Inr fs \<and> set fs = sourceFiles dir files"
  using scan_exact(2) [of files dir "[]"] assms by simp

theorem getAllSourceFiles_exact_witness:
  "readable [File ''a.go'' None, File ''notes.txt'' None,
             Dir ''vendor'' (Some [File ''v.go'' None]),
             Dir ''sub'' (Some [File ''c.go'' None, Dir ''vendor'' None])] \<and>
   (\<exists>fs. getAllSourceFiles ''/p''
            (Some [File ''a.go'' None, File ''notes.txt'' None,
                   Dir ''vendor'' (Some [File ''v.go'' None]),
                   Dir ''sub'' (Some [File ''c.go'' None, Dir ''vendor'' None])]) = Inr fs \<and>
         set fs = sourceFiles ''/p''
            [File ''a.go'' None, File ''notes.txt'' None,
             Dir ''vendor'' (Some [File ''v.go'' None]),
             Dir ''sub'' (Some [File ''c.go'' None, Dir ''vendor'' None])])"
proof -
  have r: "readable [File ''a.go'' None, File ''notes.txt'' None,
             Dir ''vendor'' (Some [File ''v.go'' None]),
             Dir ''sub'' (Some [File ''c.go'' None, Dir ''vendor'' None])]"
    by (simp add: vendorFolderName_def)
  from getAllSourceFiles_exact [OF r, of "''/p''"] r show ?thesis by blast
qed

section \<open>Properties of the lockfile codec\<close>























section \<open>Properties of the adapter and the fetcher\<close>

lemma cloneRepo_eq:
  "cloneRepo url dir w =
     (case remotes w url of
        None \<Rightarrow> Inl (CmdFailed [''git'', ''clone'', url, dir])
      | Some (r, t) \<Rightarrow>
          if repos w dir \<noteq> None \<or> map_of (trees w) dir \<noteq> None
          then Inl (CmdFailed [''git'', ''clone'', url, dir])
          else Inr (w\<lparr>repos := (repos w)(dir \<mapsto> r\<lparr>origin := Some url\<rparr>),
                       trees := (dir, t) # trees w,
                       ran := ran w @ [(None, [''git'', ''clone'', url, dir])]\<rparr>))"
  by (simp add: cloneRepo_def runCmd_def git_def gitClone_def split: option.splits prod.splits)

lemma getCurrentBranch_eq:
  "getCurrentBranch dir w =
     (case repos w dir of
        None \<Rightarrow> Inl (CmdFailed [''git'', ''branch''])
      | Some r \<Rightarrow> Inr (parseBranch (branchListing r),
                      w\<lparr>ran := ran w @ [(Some dir, [''git'', ''branch''])]\<rparr>))"
  by (simp add: getCurrentBranch_def runCmd_def git_def gitInRepo_def map_upd_triv
           split: option.splits)

lemma getCurrentCommitHash_eq:
  "getCurrentCommitHash dir w =
     (case repos w dir of
        None \<Rightarrow> Inl (CmdFailed [''git'', ''rev-parse'', ''HEAD''])
      | Some r \<Rightarrow>
         (case head r of
            None \<Rightarrow> Inl (CmdFailed [''git'', ''rev-parse'', ''HEAD''])
          | Some h \<Rightarrow> Inr (TrimRight (h @ ''\<newline>'') ''\<newline> '',
                          w\<lparr>ran := ran w @ [(Some dir, [''git'', ''rev-parse'', ''HEAD''])]\<rparr>)))"
  by (simp add: getCurrentCommitHash_def runCmd_def git_def gitInRepo_def map_upd_triv
           split: option.splits)



lemma TrimRight_snoc:
  "TrimRight (s @ [c]) cs = (if c \<in> set cs then TrimRight s cs else s @ [c])"
  by (simp add: TrimRight_def)

lemma TrimRight_id: "s \<noteq> [] \<Longrightarrow> last s \<notin> set cs \<Longrightarrow> TrimRight s cs = s"
  by (cases s rule: rev_cases) (simp_all add: TrimRight_snoc)

lemma isHash_trim: "isHash h \<Longrightarrow> TrimRight (h @ ''\<newline>'') ''\<newline> '' = h"
proof -
  assume a: "isHash h"
  then have ne: "h \<noteq> []" by (simp add: isHash_def)
  then have "last h \<in> set h" by simp
  with a have "last h \<in> set ''0123456789abcdef''" unfolding isHash_def by blast
  then have "last h \<notin> set ''\<newline> ''" by auto
  with ne have "TrimRight h ''\<newline> '' = h" by (rule TrimRight_id)
  then show ?thesis using TrimRight_snoc [of h "CHR ''\<newline>''" "''\<newline> ''"] by simp
qed

lemma clonePackage_ok:
  assumes "remotes w url = Some (r, t)" "repos w dir = None" "map_of (trees w) dir = None"
    "head r = Some h" "url = ''https://'' @ p"
  shows "clonePackage p dir w =
           ([\<lparr>pkg = p, entry = Some (BpmEntry url
                  (parseBranch (branchListing (r\<lparr>origin := Some url\<rparr>)))
                  (TrimRight (h @ ''\<newline>'') ''\<newline> '') [])\<rparr>,
             \<lparr>pkg = p, entry = None\<rparr>],
            w\<lparr>repos := (repos w)(dir \<mapsto> r\<lparr>origin := Some url\<rparr>),
              trees := (dir, t) # trees w,
              ran := ran w @ [(None, [''git'', ''clone'', url, dir]),
                              (Some dir, [''git'', ''branch'']),
                              (Some dir, [''git'', ''rev-parse'', ''HEAD''])]\<rparr>)"
  using assms
  by (simp add: clonePackage_def cloneRepo_eq getCurrentBranch_eq getCurrentCommitHash_eq Let_def)

lemma clonePackage_fail:
  assumes "\<not> fetchable (''https://'' @ p) dir w"
  shows "\<exists>w'. clonePackage p dir w = ([\<lparr>pkg = p, entry = None\<rparr>], w') \<and>
              sameElsewhere dir w w' \<and> \<not> fetchable (''https://'' @ p) dir w'"
proof (cases "remotes w (''https://'' @ p)")
  case None
  then have "clonePackage p dir w = ([\<lparr>pkg = p, entry = None\<rparr>], w)"
    by (simp add: clonePackage_def cloneRepo_eq Let_def)
  then show ?thesis using assms by (auto simp: sameElsewhere_def)
next
  case (Some rt)
  obtain r t where rt: "rt = (r, t)" by (cases rt)
  show ?thesis
  proof (cases "repos w dir \<noteq> None \<or> map_of (trees w) dir \<noteq> None")
    case True
    then have "clonePackage p dir w = ([\<lparr>pkg = p, entry = None\<rparr>], w)"
      using Some rt by (auto simp add: clonePackage_def cloneRepo_eq Let_def)
    then show ?thesis using assms by (auto simp: sameElsewhere_def)
  next
    case False
    then have hd: "head r = None" using assms Some rt by (simp add: fetchable_def)
    let ?w' = "w\<lparr>repos := (repos w)(dir \<mapsto> r\<lparr>origin := Some (''https://'' @ p)\<rparr>),
              trees := (dir, t) # trees w,
              ran := ran w @ [(None, [''git'', ''clone'', ''https://'' @ p, dir]),
                              (Some dir, [''git'', ''branch''])]\<rparr>"
    have "clonePackage p dir w = ([\<lparr>pkg = p, entry = None\<rparr>], ?w')"
      using Some rt False hd
      by (simp add: clonePackage_def cloneRepo_eq getCurrentBranch_eq getCurrentCommitHash_eq Let_def)
    moreover have "sameElsewhere dir w ?w'" by (simp add: sameElsewhere_def)
    moreover have "\<not> fetchable (''https://'' @ p) dir ?w'"
      by (simp add: fetchable_def split: option.splits)
    ultimately show ?thesis by blast
  qed
qed

lemma clonePackage_success:
  assumes "fetchable (''https://'' @ p) dir w"
  shows "\<exists>e w' r t h. clonePackage p dir w = ([\<lparr>pkg = p, entry = Some e\<rparr>, \<lparr>pkg = p, entry = None\<rparr>], w') \<and>
              sameElsewhere dir w w' \<and> repos w' dir \<noteq> None \<and>
              remotes w (''https://'' @ p) = Some (r, t) \<and> head r = Some h \<and>
              URL e = ''https://'' @ p \<and> Commit e = TrimRight (h @ ''\<newline>'') ''\<newline> '' \<and>
              Dependencies e = []"
proof -
  define url where "url = ''https://'' @ p"
  from assms obtain r t h where rt: "remotes w url = Some (r, t)"
    and free: "repos w dir = None" "map_of (trees w) dir = None" and h: "head r = Some h"
    unfolding url_def by (auto simp: fetchable_def split: option.splits)
  have u: "url = ''https://'' @ p" by (simp add: url_def)
  let ?e = "BpmEntry url (parseBranch (branchListing (r\<lparr>origin := Some url\<rparr>)))
                  (TrimRight (h @ ''\<newline>'') ''\<newline> '') []"
  let ?w' = "w\<lparr>repos := (repos w)(dir \<mapsto> r\<lparr>origin := Some url\<rparr>),
              trees := (dir, t) # trees w,
              ran := ran w @ [(None, [''git'', ''clone'', url, dir]),
                              (Some dir, [''git'', ''branch'']),
                              (Some dir, [''git'', ''rev-parse'', ''HEAD''])]\<rparr>"
  have eq: "clonePackage p dir w = ([\<lparr>pkg = p, entry = Some ?e\<rparr>, \<lparr>pkg = p, entry = None\<rparr>], ?w')"
    by (rule clonePackage_ok [OF rt free h u])
  have se: "sameElsewhere dir w ?w'" by (simp add: sameElsewhere_def)
  have rp: "repos ?w' dir \<noteq> None" by simp
  have "clonePackage p dir w = ([\<lparr>pkg = p, entry = Some ?e\<rparr>, \<lparr>pkg = p, entry = None\<rparr>], ?w') \<and>
              sameElsewhere dir w ?w' \<and> repos ?w' dir \<noteq> None \<and>
              remotes w url = Some (r, t) \<and> head r = Some h \<and>
              URL ?e = url \<and> Commit ?e = TrimRight (h @ ''\<newline>'') ''\<newline> '' \<and>
              Dependencies ?e = []"
    using eq se rp rt h by simp
  then show ?thesis unfolding url_def by blast
qed

lemma Join_inject: "Join d a = Join d b \<Longrightarrow> a = b"
  by (auto simp: Join_def split: if_splits)

lemma fetchable_elsewhere:
  "sameElsewhere dir w w' \<Longrightarrow> d \<noteq> dir \<Longrightarrow> fetchable u d w' = fetchable u d w"
  by (simp add: sameElsewhere_def fetchable_def split: option.splits)

lemma set_update_subset: "set (AList.update k v al) \<subseteq> insert (k, v) (set al)"
  by (induction al) auto

lemma startTasks_Cons:
  "startTasks (p # rest) vd w =
     (fst (clonePackage p (Join vd p) w) # fst (startTasks rest vd (snd (clonePackage p (Join vd p) w))),
      snd (startTasks rest vd (snd (clonePackage p (Join vd p) w))))"
  by (simp add: Let_def split: prod.splits)

lemma taskOk_after_success:
  assumes "sameElsewhere (Join vd p) w w'" "repos w' (Join vd p) \<noteq> None"
  shows "taskOk vd w' q = (q \<noteq> p \<and> taskOk vd w q)"
proof (cases "q = p")
  case True
  then show ?thesis using assms(2) by (auto simp: taskOk_def fetchable_def split: option.splits)
next
  case False
  then have "Join vd q \<noteq> Join vd p" using Join_inject by blast
  then show ?thesis using fetchable_elsewhere [OF assms(1)] False by (simp add: taskOk_def)
qed

lemma taskOk_after_failure:
  assumes "sameElsewhere (Join vd p) w w'" "\<not> taskOk vd w' p" "\<not> taskOk vd w p"
  shows "taskOk vd w' q = taskOk vd w q"
proof (cases "q = p")
  case True
  then show ?thesis using assms(2,3) by simp
next
  case False
  then have "Join vd q \<noteq> Join vd p" using Join_inject by blast
  then show ?thesis using fetchable_elsewhere [OF assms(1)] by (simp add: taskOk_def)
qed

lemma fetched_keys:
  "fst ` set (receiveAll (fst (startTasks ps vd w)) acc)
     = fst ` set acc \<union> {p \<in> set ps. taskOk vd w p}"
proof (induction ps arbitrary: w acc)
  case Nil
  show ?case by simp
next
  case (Cons p rest)
  show ?case
  proof (cases "taskOk vd w p")
    case True
    then have "fetchable (''https://'' @ p) (Join vd p) w" by (simp add: taskOk_def)
    from clonePackage_success [OF this] obtain e w' where
      cp: "clonePackage p (Join vd p) w = ([\<lparr>pkg = p, entry = Some e\<rparr>, \<lparr>pkg = p, entry = None\<rparr>], w')"
      and se: "sameElsewhere (Join vd p) w w'" and pop: "repos w' (Join vd p) \<noteq> None"
      by blast
    note later = taskOk_after_success [OF se pop]
    have "fst ` set (receiveAll (fst (startTasks (p # rest) vd w)) acc)
            = fst ` set (receiveAll (fst (startTasks rest vd w')) (AList.update p e acc))"
      by (simp add: startTasks_Cons cp del: startTasks.simps)
    also have "\<dots> = fst ` set (AList.update p e acc) \<union> {q \<in> set rest. taskOk vd w' q}"
      by (rule Cons.IH)
    also have "\<dots> = fst ` set acc \<union> {q \<in> set (p # rest). taskOk vd w q}"
      using True by (auto simp: later dom_update)
    finally show ?thesis .
  next
    case False
    then have "\<not> fetchable (''https://'' @ p) (Join vd p) w" by (simp add: taskOk_def)
    from clonePackage_fail [OF this] obtain w' where
      cp: "clonePackage p (Join vd p) w = ([\<lparr>pkg = p, entry = None\<rparr>], w')"
      and se: "sameElsewhere (Join vd p) w w'"
      and nf: "\<not> taskOk vd w' p"
      unfolding taskOk_def by blast
    note later = taskOk_after_failure [OF se nf False]
    have "fst ` set (receiveAll (fst (startTasks (p # rest) vd w)) acc)
            = fst ` set (receiveAll (fst (startTasks rest vd w')) acc)"
      by (simp add: startTasks_Cons cp del: startTasks.simps)
    also have "\<dots> = fst ` set acc \<union> {q \<in> set rest. taskOk vd w' q}"
      by (rule Cons.IH)
    also have "\<dots> = fst ` set acc \<union> {q \<in> set (p # rest). taskOk vd w q}"
      using False by (auto simp: later)
    finally show ?thesis .
  qed
qed

lemma installPackages_eq:
  "installPackages packages dir w =
     (receiveAll (fst (startTasks packages (Join dir vendorFolderName) w)) [],
      snd (startTasks packages (Join dir vendorFolderName) w))"
  by (simp add: installPackages_def Let_def split: prod.splits)

text \<open>
  Claim C5 (partial-failure isolation in discovery). For every list of candidate
  packages, \<^verbatim>\<open>installPackages\<close> returns a mapping (it has no failing outcome: a task that
  panics is recovered and sends a result without entry), and the keys of the mapping
  are exactly the candidates whose clone task succeeds: a candidate whose task fails is
  absent, and the others are present whatever happens to their siblings.
\<close>

theorem installPackages_isolation:
  "\<exists>deps w'. installPackages packages dir w = (deps, w') \<and>
     fst ` set deps = {p \<in> set packages.
                        fetchable (''https://'' @ p) (Join (Join dir vendorFolderName) p) w}"
  using fetched_keys [of packages "Join dir vendorFolderName" w "[]"]
  by (simp add: installPackages_eq taskOk_def)

lemma ex_fetch_one:
  "fetchable (''https://'' @ ''example.com/org/one'')
     (Join (Join ''/proj'' vendorFolderName) ''example.com/org/one'') exampleWorld"
  by (simp add: fetchable_def exampleWorld_def exampleRepo_def Join_def vendorFolderName_def)

lemma ex_fetch_two:
  "\<not> fetchable (''https://'' @ ''example.com/org/two'')
     (Join (Join ''/proj'' vendorFolderName) ''example.com/org/two'') exampleWorld"
  by (simp add: fetchable_def exampleWorld_def exampleRepo_def Join_def vendorFolderName_def)

lemma ex_fetch_three:
  "fetchable (''https://'' @ ''example.com/org/three'')
     (Join (Join ''/proj'' vendorFolderName) ''example.com/org/three'') exampleWorld"
  by (simp add: fetchable_def exampleWorld_def exampleRepo_def Join_def vendorFolderName_def)

theorem installPackages_isolation_witness:
  "\<exists>deps w'. installPackages [''example.com/org/one'', ''example.com/org/two'',
                                ''example.com/org/three''] ''/proj'' exampleWorld = (deps, w') \<and>
     fst ` set deps = {''example.com/org/one'', ''example.com/org/three''}"
proof -
  have "{p \<in> set [''example.com/org/one'', ''example.com/org/two'', ''example.com/org/three''].
          fetchable (''https://'' @ p) (Join (Join ''/proj'' vendorFolderName) p) exampleWorld}
        = {''example.com/org/one'', ''example.com/org/three''}"
    using ex_fetch_one ex_fetch_two ex_fetch_three by auto
  then show ?thesis
    using installPackages_isolation [of "[''example.com/org/one'', ''example.com/org/two'',
                                ''example.com/org/three'']" "''/proj''" exampleWorld]
    by simp
qed

lemma fetchedFrom_cong: "remotes w' = remotes w \<Longrightarrow> fetchedFrom w' k e = fetchedFrom w k e"
  by (simp add: fetchedFrom_def)

lemma fetched_entries:
  assumes "\<forall>(k, e) \<in> set acc. fetchedFrom w k e"
  shows "\<forall>(k, e) \<in> set (receiveAll (fst (startTasks ps vd w)) acc). fetchedFrom w k e"
  using assms
proof (induction ps arbitrary: w acc)
  case Nil
  then show ?case by simp
next
  case (Cons p rest)
  show ?case
  proof (cases "taskOk vd w p")
    case True
    then have "fetchable (''https://'' @ p) (Join vd p) w" by (simp add: taskOk_def)
    from clonePackage_success [OF this] obtain e w' r t h where
      cp: "clonePackage p (Join vd p) w = ([\<lparr>pkg = p, entry = Some e\<rparr>, \<lparr>pkg = p, entry = None\<rparr>], w')"
      and se: "sameElsewhere (Join vd p) w w'"
      and rm: "remotes w (''https://'' @ p) = Some (r, t)" "head r = Some h"
      and e: "URL e = ''https://'' @ p" "Commit e = TrimRight (h @ ''\<newline>'') ''\<newline> ''"
      by blast
    have rem: "remotes w' = remotes w" using se by (simp add: sameElsewhere_def)
    have pe: "fetchedFrom w p e" using e rm by (simp add: fetchedFrom_def)
    have "\<forall>(k, e) \<in> set (AList.update p e acc). fetchedFrom w' k e"
      using Cons.prems pe set_update_subset [of p e acc]
      by (auto simp: fetchedFrom_cong [OF rem])
    then have "\<forall>(k, e) \<in> set (receiveAll (fst (startTasks rest vd w')) (AList.update p e acc)).
                 fetchedFrom w' k e"
      by (rule Cons.IH)
    then show ?thesis
      by (simp add: startTasks_Cons cp fetchedFrom_cong [OF rem] del: startTasks.simps)
  next
    case False
    then have "\<not> fetchable (''https://'' @ p) (Join vd p) w" by (simp add: taskOk_def)
    from clonePackage_fail [OF this] obtain w' where
      cp: "clonePackage p (Join vd p) w = ([\<lparr>pkg = p, entry = None\<rparr>], w')"
      and se: "sameElsewhere (Join vd p) w w'"
      by blast
    have rem: "remotes w' = remotes w" using se by (simp add: sameElsewhere_def)
    have "\<forall>(k, e) \<in> set acc. fetchedFrom w' k e"
      using Cons.prems by (simp add: fetchedFrom_cong [OF rem])
    then have "\<forall>(k, e) \<in> set (receiveAll (fst (startTasks rest vd w')) acc). fetchedFrom w' k e"
      by (rule Cons.IH)
    then show ?thesis
      by (simp add: startTasks_Cons cp fetchedFrom_cong [OF rem] del: startTasks.simps)
  qed
qed

lemma fetchedFrom_commit:
  assumes "remotesHashed w" "fetchedFrom w k e"
  shows "isHash (Commit e)"
proof -
  from assms(2) obtain r t h where rm: "remotes w (''https://'' @ k) = Some (r, t)"
    and h: "head r = Some h" and c: "Commit e = TrimRight (h @ ''\<newline>'') ''\<newline> ''"
    by (auto simp: fetchedFrom_def split: option.splits)
  from assms(1) rm h have "isHash h" unfolding remotesHashed_def by blast
  then show ?thesis using c by (simp only: isHash_trim)
qed

lemma ex_hashed: "remotesHashed exampleWorld"
  by (auto simp: remotesHashed_def exampleWorld_def exampleRepo_def isHash_def split: if_splits)

text \<open>
  Claim C9 (a fetched entry has a commit). Git prints the commit of the head as a hash.
  Then every entry that \<^verbatim>\<open>installPackages\<close> produces has a commit that is not empty, and
  the field is written to the lockfile document. The branch may be empty: the third
  package of the example world, whose head is detached, gets an entry without branch.
\<close>

theorem fetched_commit_nonempty:
  assumes "remotesHashed w"
  shows "\<forall>(k, e) \<in> set (fst (installPackages packages dir w)).
           Commit e \<noteq> [] \<and> omitempty ''commit'' (Commit e) = [(''commit'', JString (Commit e))]"
proof -
  have "\<forall>(k, e) \<in> set (fst (installPackages packages dir w)). fetchedFrom w k e"
    using fetched_entries [of "[]" w packages "Join dir vendorFolderName"]
    by (simp add: installPackages_eq)
  then have "\<forall>(k, e) \<in> set (fst (installPackages packages dir w)). isHash (Commit e)"
    using fetchedFrom_commit [OF assms] by blast
  then show ?thesis by (auto simp: isHash_def omitempty_def)
qed


theorem fetched_commit_nonempty_witness:
  "remotesHashed exampleWorld \<and>
   list_all (\<lambda>(k, e). Commit e \<noteq> [] \<and>
                       omitempty ''commit'' (Commit e) = [(''commit'', JString (Commit e))])
     (fst (installPackages [''example.com/org/one'', ''example.com/org/two'',
                            ''example.com/org/three''] ''/proj'' exampleWorld))"
  using fetched_commit_nonempty [OF ex_hashed] ex_hashed unfolding list_all_iff by blast

section \<open>Properties of the reconciler\<close>



lemma matchSeq_Nil: "matchSeq branchPattern [] = None"
  by (simp add: branchPattern_def one_def maxrun_def)


















lemma branchListing_checkedOut [simp]: "branchListing (r\<lparr>checkedOut := c\<rparr>) = branchListing r"
  by (simp add: branchListing_def)

lemma branchListing_origin [simp]: "branchListing (r\<lparr>origin := c\<rparr>) = branchListing r"
  by (simp add: branchListing_def)

lemma branchListing_head [simp]: "branchListing (r\<lparr>head := c\<rparr>) = branchListing r"
  by (simp add: branchListing_def)

lemma wfRepo_upd [simp]:
  "wfRepo (r\<lparr>checkedOut := c\<rparr>) = wfRepo r"
  "wfRepo (r\<lparr>origin := u\<rparr>) = wfRepo r"
  "wfRepo (r\<lparr>current := b\<rparr>) = wfRepo r"
  "wfRepo (r\<lparr>head := h\<rparr>) = wfRepo r"
  by (simp_all add: wfRepo_def)


text \<open>What pullRepo does, in terms of the repository it finds.\<close>

lemma world_ran_simps [simp]:
  "repos (w\<lparr>ran := x\<rparr>) = repos w" "remotes (w\<lparr>ran := x\<rparr>) = remotes w"
  by simp_all








lemma repoStep_refl: "repoStep dir w w"
  by (simp add: repoStep_def)










lemma onlyTouches_mono: "onlyTouches S w w' \<Longrightarrow> S \<subseteq> T \<Longrightarrow> onlyTouches T w w'"
  by (auto simp: onlyTouches_def)










lemma dirsOfDeps_Cons:
  "dirsOfDeps ((p, e) # rest) vd =
     Join vd p # dirsOfDeps (Dependencies e) (Join (Join vd p) vendorFolderName) @ dirsOfDeps rest vd"
  by (cases e) simp

lemma childDirs_Cons:
  "childDirs ((p, e) # rest) vd =
     dirsOfDeps (Dependencies e) (Join (Join vd p) vendorFolderName) @ childDirs rest vd"
  by (cases e) simp








lemma dirs_split:
  "set (dirsOfDeps deps vd) = Join vd ` fst ` set deps \<union> set (childDirs deps vd)"
  by (induction deps vd rule: childDirs.induct) auto


lemma distinct_dirs_Cons:
  assumes "distinct (dirsOfDeps ((p, e) # rest) vd)"
  shows "distinct (dirsOfDeps (Dependencies e) (Join (Join vd p) vendorFolderName))"
    and "distinct (dirsOfDeps rest vd)"
    and "Join vd p \<notin> set (dirsOfDeps (Dependencies e) (Join (Join vd p) vendorFolderName))"
    and "Join vd p \<notin> set (dirsOfDeps rest vd)"
    and "set (dirsOfDeps (Dependencies e) (Join (Join vd p) vendorFolderName))
           \<inter> set (dirsOfDeps rest vd) = {}"
  using assms by (auto simp: dirsOfDeps_Cons)


lemma distinct_level_children:
  "distinct (dirsOfDeps deps vd) \<Longrightarrow>
     distinct (childDirs deps vd) \<and> Join vd ` fst ` set deps \<inter> set (childDirs deps vd) = {}"
proof (induction deps)
  case Nil
  show ?case by simp
next
  case (Cons x deps)
  obtain p e where x: "x = (p, e)" by (cases x)
  define H where "H = dirsOfDeps (Dependencies e) (Join (Join vd p) vendorFolderName)"
  define C where "C = childDirs deps vd"
  define L where "L = Join vd ` fst ` set deps"
  note d = distinct_dirs_Cons [OF Cons.prems [unfolded x], folded H_def]
  have ds: "set (dirsOfDeps deps vd) = L \<union> set C" by (simp add: dirs_split L_def C_def)
  from Cons.IH [OF d(2)] have ih: "distinct C" "L \<inter> set C = {}" by (simp_all add: L_def C_def)
  have 1: "distinct (H @ C)" using d(1) ih(1) d(5) ds by auto
  have 2: "insert (Join vd p) L \<inter> (set H \<union> set C) = {}"
    using d(3,4,5) ih(2) ds by blast
  have "childDirs (x # deps) vd = H @ C" by (simp add: x childDirs_Cons H_def C_def)
  moreover have "Join vd ` fst ` set (x # deps) = insert (Join vd p) L" by (simp add: x L_def)
  ultimately show ?case using 1 2 by simp
qed






lemma world_ran_ran: "w\<lparr>ran := a\<rparr>\<lparr>ran := b\<rparr> = w\<lparr>ran := b\<rparr>"
  by simp


















section \<open>Commands\<close>

text \<open>
  Claim C3 (location of the lockfile). \<^verbatim>\<open>doInstall\<close> reads the lockfile at
  \<^verbatim>\<open>Join dir "bpm.json"\<close>, but \<^verbatim>\<open>writeDataFile\<close> writes to the bare name
  \<^verbatim>\<open>bpm.json\<close>, which the operating system resolves against the working directory of
  the process. For the project in \<^verbatim>\<open>/proj\<close> with the command started in \<^verbatim>\<open>/tmp\<close>,
  install writes the pinned graph to \<^verbatim>\<open>/tmp/bpm.json\<close> and leaves the lockfile of the
  project root, \<^verbatim>\<open>/proj/bpm.json\<close>, as it was: not pinned.
\<close>

theorem doInstall_writes_in_cwd:
  "lockfileAfter ''/tmp/bpm.json'' (doInstall ''/proj'' installWorld) =
     Some (Some (JObject
       [(''package'', JString ''example.com/me/proj''),
        (''dependencies'',
         JObject [(''example.com/org/one'',
                   JObject [(''url'', JString ''https://example.com/org/one''),
                            (''branch'', JString ''master''),
                            (''commit'', JString ''1111''),
                            (''dependencies'', JObject [])])])])) \<and>
   lockfileAfter ''/proj/bpm.json'' (doInstall ''/proj'' installWorld) =
     Some (Some (JObject
       [(''package'', JString ''example.com/me/proj''),
        (''dependencies'',
         JObject [(''example.com/org/one'',
                   JObject [(''url'', JString ''https://example.com/org/one''),
                            (''dependencies'', JObject [])])])]))"
  by code_simp

text \<open>
  Claim C4 (unresolvable project identity), the case without a remote. In a
  repository without an origin, \<^verbatim>\<open>git remote get-url origin\<close> fails, \<^verbatim>\<open>runCmd\<close>
  panics and nothing recovers the panic: init ends with the panic instead of returning.
\<close>

theorem doInit_no_remote_counterexample:
  "failure (doInit simpleParse 3 ''/proj'' noRemoteWorld) =
     Some (CmdFailed [''git'', ''remote'', ''get-url'', ''origin''])"
  by code_simp

lemma remote_query:
  assumes "repos w dir = Some r" "origin r = Some u"
  shows "runCmd (Some dir) True ''git'' [''remote'', ''get-url'', ''origin''] w
           = Inr (u @ ''\<newline>'',
                  w\<lparr>ran := ran w @ [(Some dir, [''git'', ''remote'', ''get-url'', ''origin''])]\<rparr>)"
  using assms by (simp add: runCmd_def git_def gitInRepo_def map_upd_triv)

lemma getCurrentPackage_unresolvable:
  assumes "repos w dir = Some r" "origin r = Some u" "unresolvable urlParse (u @ ''\<newline>'')"
  shows "getCurrentPackage urlParse dir w
           = Inr ([], w\<lparr>ran := ran w @ [(Some dir, [''git'', ''remote'', ''get-url'', ''origin''])],
                         stdout := stdout w @ [identityMessage urlParse (u @ ''\<newline>'')]\<rparr>)"
proof (cases "urlParse (u @ ''\<newline>'')")
  case None
  then show ?thesis
    unfolding getCurrentPackage_def remote_query [OF assms(1,2)] identityMessage_def by simp
next
  case (Some hp)
  obtain hostname rawPath where hp: "hp = (hostname, rawPath)" by (cases hp)
  let ?p0 = "TrimSpace (hostname @ rawPath)"
  let ?p1 = "if HasSuffix ?p0 ''.git'' then take (length ?p0 - 4) ?p0 else ?p0"
  have nm: "\<not> MatchString getPackagePattern ?p1"
    using assms(3) Some hp unfolding unresolvable_def by simp
  show ?thesis
    unfolding getCurrentPackage_def remote_query [OF assms(1,2)] Let_def identityMessage_def
    using nm Some hp by (simp split del: if_split)
qed

text \<open>
  Claim C4, amended. In a repository whose origin is set, when the output of the remote
  query is not a URL, or host and raw path do not match the host-qualified pattern,
  \<^verbatim>\<open>getCurrentPackage\<close> returns the empty identifier after printing one message and
  running only the remote query; init returns normally, having printed that message (or
  that the lockfile exists), and rebuild returns normally, having printed the working
  directory and that message. Neither resolves anything nor writes a lockfile.
\<close>

theorem unresolvable_identity:
  assumes "repos w dir = Some r" and "origin r = Some u"
    and "unresolvable urlParse (u @ ''\<newline>'')"
  shows "getCurrentPackage urlParse dir w
            = Inr ([], w\<lparr>ran := ran w @ [(Some dir, [''git'', ''remote'', ''get-url'', ''origin''])],
                          stdout := stdout w @ [identityMessage urlParse (u @ ''\<newline>'')]\<rparr>) \<and>
         doInit urlParse n dir w
            = Some (Inr (if fileExists (Join dir dependencyFilename) w
                         then w\<lparr>stdout := stdout w @
                                  [dependencyFilename @ '' already exists: '' @
                                   Join dir dependencyFilename]\<rparr>
                         else w\<lparr>ran := ran w @ [(Some dir, [''git'', ''remote'', ''get-url'', ''origin''])],
                                stdout := stdout w @ [identityMessage urlParse (u @ ''\<newline>'')]\<rparr>)) \<and>
         doRebuild urlParse n dir w
            = Some (Inr (w\<lparr>ran := ran w @ [(Some dir, [''git'', ''remote'', ''get-url'', ''origin''])],
                           stdout := stdout w @ [''Working dir: '' @ dir,
                                                 identityMessage urlParse (u @ ''\<newline>'')]\<rparr>))"
proof -
  note 1 = getCurrentPackage_unresolvable [OF assms]
  let ?w0 = "w\<lparr>stdout := stdout w @ [''Working dir: '' @ dir]\<rparr>"
  have r0: "repos ?w0 dir = Some r" using assms(1) by simp
  note 2 = getCurrentPackage_unresolvable [OF r0 assms(2,3)]
  have 3: "doInit urlParse n dir w
            = Some (Inr (if fileExists (Join dir dependencyFilename) w
                         then w\<lparr>stdout := stdout w @
                                  [dependencyFilename @ '' already exists: '' @
                                   Join dir dependencyFilename]\<rparr>
                         else w\<lparr>ran := ran w @ [(Some dir, [''git'', ''remote'', ''get-url'', ''origin''])],
                                stdout := stdout w @ [identityMessage urlParse (u @ ''\<newline>'')]\<rparr>))"
    unfolding doInit_def Let_def by (simp add: 1)
  have 4: "doRebuild urlParse n dir w
            = Some (Inr (w\<lparr>ran := ran w @ [(Some dir, [''git'', ''remote'', ''get-url'', ''origin''])],
                           stdout := stdout w @ [''Working dir: '' @ dir,
                                                 identityMessage urlParse (u @ ''\<newline>'')]\<rparr>))"
    unfolding doRebuild_def 2 by simp
  from 1 3 4 show ?thesis by (intro conjI)
qed

theorem unresolvable_identity_witness:
  "repos shortOriginWorld ''/proj'' = Some shortOriginRepo \<and>
   origin shortOriginRepo = Some ''https://example.com/me'' \<and>
   unresolvable simpleParse (''https://example.com/me'' @ ''\<newline>'') \<and>
   identityMessage simpleParse (''https://example.com/me'' @ ''\<newline>'')
     = ''Repo origin is not a valid package: example.com/me'' \<and>
   doInit simpleParse 3 ''/proj'' shortOriginWorld
     = Some (Inr (shortOriginWorld
          \<lparr>ran := ran shortOriginWorld @ [(Some ''/proj'', [''git'', ''remote'', ''get-url'', ''origin''])],
           stdout := stdout shortOriginWorld @
                     [identityMessage simpleParse (''https://example.com/me'' @ ''\<newline>'')]\<rparr>)) \<and>
   doRebuild simpleParse 3 ''/proj'' shortOriginWorld
     = Some (Inr (shortOriginWorld
          \<lparr>ran := ran shortOriginWorld @ [(Some ''/proj'', [''git'', ''remote'', ''get-url'', ''origin''])],
           stdout := stdout shortOriginWorld @
                     [''Working dir: '' @ ''/proj'',
                      identityMessage simpleParse (''https://example.com/me'' @ ''\<newline>'')]\<rparr>))"
proof -
  have h1: "repos shortOriginWorld ''/proj'' = Some shortOriginRepo"
    by (simp add: shortOriginWorld_def)
  have h2: "origin shortOriginRepo = Some ''https://example.com/me''"
    by (simp add: shortOriginRepo_def)
  have h3: "unresolvable simpleParse (''https://example.com/me'' @ ''\<newline>'')"
    by code_simp
  have m: "identityMessage simpleParse (''https://example.com/me'' @ ''\<newline>'')
             = ''Repo origin is not a valid package: example.com/me''"
    by code_simp
  have f: "\<not> fileExists (Join ''/proj'' dependencyFilename) shortOriginWorld"
    by code_simp
  from unresolvable_identity [OF h1 h2 h3, of 3] h1 h2 h3 m f show ?thesis
    by (simp only: if_False simp_thms)
qed

end
